theory Spec2Isabelle
  imports Main
begin

section \<open>Python values\<close>

text \<open>
  The two modules (\<open>falkon/kernels/keops_helpers.py\<close> and \<open>falkon/kernels/kernel.py\<close>)
  validate operands, choose a backend and decompose the fused double product. They never
  look at the numbers inside a tensor: a tensor is its metadata and a reference to its
  storage. An exception is a value: a function that can raise returns \<open>error + 'a\<close>, and a
  function with effects also returns the state it leaves, whether it raised or not.
\<close>

type_synonym addr = nat

datatype error =
    ValueError string
  | TypeError string
  | RuntimeError string
  | ModuleNotFoundError string
  | IndexError string
  | AttributeError string
  | NameError string

datatype torch_dtype = float16 | float32 | float64 | int32 | int64

record torch_device =
  dev_type :: string
  dev_index :: "nat option"

text \<open>
  \<open>isinstance(T, torch.Tensor)\<close> is \<open>cls T = TorchTensor\<close>; the other operand class the
  modules name is falkon's \<open>SparseTensor\<close>.
\<close>

datatype tensor_class = TorchTensor | SparseTensor

record tensor =
  cls :: tensor_class
  storage :: addr
  shape :: "nat list"
  dtype :: torch_dtype
  device :: torch_device
  is_sparse :: bool

text \<open>
  \<open>FalkonOptions\<close> is declared outside the two modules. They read \<open>keops_active\<close>, and
  the warnings name \<open>use_cpu\<close>; every other field is carried in \<open>other_options\<close>.
\<close>

record 'z FalkonOptions =
  use_cpu :: bool
  keops_active :: string
  other_options :: 'z

record kernel =
  name :: string
  kernel_type :: string
  params :: addr

text \<open>
  The state a call runs in: the contents of the tensor storages, the \<open>FalkonOptions\<close>
  objects allocated so far (the addresses below \<open>next_id\<close>), and the warnings emitted.
\<close>

record ('v, 'z) pystate =
  storages :: "addr \<Rightarrow> 'v"
  options :: "addr \<Rightarrow> 'z FalkonOptions"
  next_id :: addr
  warnings :: "string list"

definition warn :: "string \<Rightarrow> ('v, 'z) pystate \<Rightarrow> ('v, 'z) pystate" where
  "warn msg st = st\<lparr>warnings := warnings st @ [msg]\<rparr>"

text \<open>\<open>T.shape[i]\<close>: indexing the shape tuple raises \<open>IndexError\<close> out of range.\<close>

definition shape_at :: "tensor \<Rightarrow> nat \<Rightarrow> error + nat" where
  "shape_at T i =
     (if i < length (shape T) then Inr (shape T ! i)
      else Inl (IndexError ''tuple index out of range''))"

text \<open>\<open>T.dim()\<close> and \<open>T.size(i)\<close>.\<close>

definition dim :: "tensor \<Rightarrow> nat" where
  "dim T = length (shape T)"

definition size_at :: "tensor \<Rightarrow> nat \<Rightarrow> error + nat" where
  "size_at T i =
     (if i < dim T then Inr (shape T ! i)
      else Inl (IndexError ''Dimension out of range''))"

text \<open>
  \<open>v.reshape((-1, 1))\<close>: a view on the same storage with all elements in one column.
\<close>

definition reshape_col :: "tensor \<Rightarrow> tensor" where
  "reshape_col v = v\<lparr>shape := [prod_list (shape v), 1]\<rparr>"

text \<open>Decimal numerals and \<open>torch.Size\<close> values as the f-strings print them.\<close>

definition digit :: "nat \<Rightarrow> char" where
  "digit d = ''0123456789'' ! d"

fun str_nat :: "nat \<Rightarrow> string" where
  "str_nat n = (if n < 10 then [digit n] else str_nat (n div 10) @ [digit (n mod 10)])"

declare str_nat.simps [simp del]

fun join_comma :: "string list \<Rightarrow> string" where
  "join_comma [] = []"
| "join_comma [s] = s"
| "join_comma (s # t # ss) = s @ '', '' @ join_comma (t # ss)"

definition str_shape :: "nat list \<Rightarrow> string" where
  "str_shape s = ''torch.Size(['' @ join_comma (map str_nat s) @ ''])''"

section \<open>keops\_helpers.py\<close>

text \<open>
  The module imports \<open>run_keops_mmv\<close> inside \<open>try\<close>: the name is bound only when the
  import succeeded, and \<open>_has_keops\<close> records whether it did. The model carries the
  imported function as an option.
\<close>

definition has_keops :: "'f option \<Rightarrow> bool" where
  "has_keops run_keops_mmv = (case run_keops_mmv of None \<Rightarrow> False | Some _ \<Rightarrow> True)"

text \<open>
  \<open>should_use_keops\<close>, lines 17-50. \<open>decide_keops\<close> (falkon.utils.switches) is not one
  of the two modules: it is the first argument.
\<close>

definition should_use_keops ::
  "('z FalkonOptions \<Rightarrow> bool) \<Rightarrow> tensor \<Rightarrow> tensor \<Rightarrow> 'z FalkonOptions \<Rightarrow> error + bool" where
  "should_use_keops decide_keops T1 T2 opt =
     (if cls T1 \<noteq> TorchTensor \<or> cls T2 \<noteq> TorchTensor \<or> is_sparse T1 \<or> is_sparse T2
      then Inr False
      else if \<not> decide_keops opt then Inr False
      else (case shape_at T1 1 of
              Inl e \<Rightarrow> Inl e
            | Inr d \<Rightarrow>
                if 50 < d \<and> \<not> (keops_active opt = ''force'') then Inr False
                else Inr True))"

text \<open>
  Modelled from the spec: \<open>decide_keops\<close> (falkon.utils.switches) is not under src/.
  Spec 4.3: "the alternative engine is available (installed/linked) and policy activation
  mode is not off"; the comment above its call in \<open>should_use_keops\<close> writes the off
  mode as \<open>'no'\<close>.
\<close>

definition decide_keops_spec :: "bool \<Rightarrow> 'z FalkonOptions \<Rightarrow> bool" where
  "decide_keops_spec keops_available opt = (keops_available \<and> keops_active opt \<noteq> ''no'')"

text \<open>An operand is dense when it is a \<open>torch.Tensor\<close> that is not sparse.\<close>

definition is_dense :: "tensor \<Rightarrow> bool" where
  "is_dense T = (cls T = TorchTensor \<and> \<not> is_sparse T)"

text \<open>
  \<open>KeopsKernelMixin\<close>. No method reads \<open>self\<close>, so the model leaves it out.
  \<open>keops_mmv\<close>, lines 55-71.
\<close>

definition keops_mmv ::
  "(tensor \<Rightarrow> tensor \<Rightarrow> tensor \<Rightarrow> tensor list option \<Rightarrow> tensor option \<Rightarrow> string \<Rightarrow> string list
      \<Rightarrow> nat \<Rightarrow> string \<Rightarrow> 'o \<Rightarrow> 's \<Rightarrow> (error + tensor option) \<times> 's) option
    \<Rightarrow> tensor \<Rightarrow> tensor \<Rightarrow> tensor \<Rightarrow> tensor option \<Rightarrow> string \<Rightarrow> string list
    \<Rightarrow> tensor list option \<Rightarrow> 'o \<Rightarrow> 's \<Rightarrow> (error + tensor option) \<times> 's" where
  "keops_mmv run_keops_mmv X1 X2 v out formula aliases other_vars opt st =
     (if \<not> has_keops run_keops_mmv
      then (Inl (ModuleNotFoundError
              (''Module 'pykeops' is not properly installed. '' @
               ''Please install 'pykeops' before running 'keops_mmv'.'')), st)
      else
        let other_vars = (if other_vars = None then Some [] else other_vars) in
        (case run_keops_mmv of
           None \<Rightarrow> (Inl (NameError ''name 'run_keops_mmv' is not defined''), st)
         | Some run \<Rightarrow> run X1 X2 v other_vars out formula aliases 1 ''Sum'' opt st))"

text \<open>
  \<open>add_inplace\<close> is \<open>out1.add_(w)\<close>: torch adds \<open>w\<close> to \<open>out1\<close> in place, that is, it
  overwrites the storage of \<open>out1\<close>. What torch computes from the two tensors (or the
  error it raises) is the argument \<open>torch_add\<close>; on \<open>None\<close> the attribute lookup fails.
\<close>

definition add_inplace ::
  "(tensor \<Rightarrow> 'v \<Rightarrow> tensor \<Rightarrow> 'v \<Rightarrow> error + 'v) \<Rightarrow> tensor option \<Rightarrow> tensor option
    \<Rightarrow> ('v, 'z) pystate \<Rightarrow> (error + unit) \<times> ('v, 'z) pystate" where
  "add_inplace torch_add out1 w st =
     (case out1 of
        None \<Rightarrow> (Inl (AttributeError ''NoneType object has no attribute add_''), st)
      | Some t \<Rightarrow>
          (case w of
             None \<Rightarrow> (Inl (TypeError ''add_(): argument other must be Tensor, not NoneType''), st)
           | Some u \<Rightarrow>
               (case torch_add t (storages st (storage t)) u (storages st (storage u)) of
                  Inl e \<Rightarrow> (Inl e, st)
                | Inr c \<Rightarrow> (Inr (), st\<lparr>storages := (storages st)(storage t := c)\<rparr>))))"

text \<open>\<open>keops_dmmv_helper\<close>, lines 73-103 (\<open>kern\<close> is its argument \<open>kernel\<close>). A Python function
  that reaches its end returns \<open>None\<close>.\<close>

definition keops_dmmv_helper ::
  "(tensor \<Rightarrow> 'v \<Rightarrow> tensor \<Rightarrow> 'v \<Rightarrow> error + 'v)
    \<Rightarrow> tensor \<Rightarrow> tensor \<Rightarrow> tensor option \<Rightarrow> tensor option \<Rightarrow> 'k \<Rightarrow> tensor option \<Rightarrow> 'o
    \<Rightarrow> (tensor \<Rightarrow> tensor \<Rightarrow> tensor option \<Rightarrow> 'k \<Rightarrow> tensor option \<Rightarrow> 'o \<Rightarrow> ('v, 'z) pystate
          \<Rightarrow> (error + tensor option) \<times> ('v, 'z) pystate)
    \<Rightarrow> ('v, 'z) pystate \<Rightarrow> (error + tensor option) \<times> ('v, 'z) pystate" where
  "keops_dmmv_helper torch_add X1 X2 v w kern out opt mmv_fn st =
     (if v \<noteq> None \<and> w \<noteq> None then
        (case mmv_fn X1 X2 v kern None opt st of
           (Inl e, st1) \<Rightarrow> (Inl e, st1)
         | (Inr out1, st1) \<Rightarrow>
             (case add_inplace torch_add out1 w st1 of
                (Inl e, st2) \<Rightarrow> (Inl e, st2)
              | (Inr _, st2) \<Rightarrow> mmv_fn X2 X1 out1 kern out opt st2))
      else if v = None then mmv_fn X2 X1 w kern out opt st
      else if w = None then
        (case mmv_fn X1 X2 v kern None opt st of
           (Inl e, st1) \<Rightarrow> (Inl e, st1)
         | (Inr out1, st1) \<Rightarrow> mmv_fn X2 X1 out1 kern out opt st1)
      else (Inr None, st))"

text \<open>\<open>keops_can_handle_mm\<close>, \<open>keops_can_handle_mmv\<close>, \<open>keops_can_handle_dmmv\<close>, lines 106-124.
  Python's \<open>a and b\<close> evaluates \<open>b\<close> only when \<open>a\<close> is true.\<close>

definition keops_can_handle_mm :: "tensor \<Rightarrow> tensor \<Rightarrow> 'z FalkonOptions \<Rightarrow> bool" where
  "keops_can_handle_mm X1 X2 opt = False"

definition keops_can_handle_mmv ::
  "('z FalkonOptions \<Rightarrow> bool) \<Rightarrow> tensor \<Rightarrow> tensor \<Rightarrow> tensor option \<Rightarrow> 'z FalkonOptions
    \<Rightarrow> error + bool" where
  "keops_can_handle_mmv decide_keops X1 X2 v opt = should_use_keops decide_keops X1 X2 opt"

definition keops_can_handle_dmmv ::
  "('z FalkonOptions \<Rightarrow> bool) \<Rightarrow> tensor \<Rightarrow> tensor \<Rightarrow> tensor option \<Rightarrow> tensor option
    \<Rightarrow> 'z FalkonOptions \<Rightarrow> error + bool" where
  "keops_can_handle_dmmv decide_keops X1 X2 v w opt =
     (case keops_can_handle_mmv decide_keops X1 X2 v opt of
        Inl e \<Rightarrow> Inl e
      | Inr a \<Rightarrow> if a then keops_can_handle_mmv decide_keops X2 X1 w opt else Inr False)"

section \<open>kernel.py\<close>

text \<open>
  What \<open>kernel.py\<close> imports from the rest of the package and does not define: the two
  switches \<open>decide_cuda\<close> and \<open>check_sparse\<close>, the outcome of the two deferred imports
  of the CUDA backends (\<open>None\<close> when the import succeeds, the exception otherwise), and
  the twelve backend functions, which run in the state and may raise.
\<close>

datatype mm_backend = fmm_cpu | fmm_cpu_sparse | fmm_cuda | fmm_cuda_sparse

datatype mmv_backend = fmmv_cpu | fmmv_cpu_sparse | fmmv_cuda | fmmv_cuda_sparse

datatype dmmv_backend = fdmmv_cpu | fdmmv_cpu_sparse | fdmmv_cuda | fdmmv_cuda_sparse

record ('v, 'z) env =
  decide_cuda :: "'z FalkonOptions \<Rightarrow> bool"
  check_sparse :: "tensor list \<Rightarrow> bool list"
  import_fmm_cuda :: "error option"
  import_fmmv_cuda :: "error option"
  call_mm :: "mm_backend \<Rightarrow> tensor \<Rightarrow> tensor \<Rightarrow> kernel \<Rightarrow> tensor option \<Rightarrow> addr
    \<Rightarrow> ('v, 'z) pystate \<Rightarrow> (error + tensor option) \<times> ('v, 'z) pystate"
  call_mmv :: "mmv_backend \<Rightarrow> tensor \<Rightarrow> tensor \<Rightarrow> tensor \<Rightarrow> kernel \<Rightarrow> tensor option \<Rightarrow> addr
    \<Rightarrow> ('v, 'z) pystate \<Rightarrow> (error + tensor option) \<times> ('v, 'z) pystate"
  call_dmmv :: "dmmv_backend \<Rightarrow> tensor \<Rightarrow> tensor \<Rightarrow> tensor option \<Rightarrow> tensor option \<Rightarrow> kernel
    \<Rightarrow> tensor option \<Rightarrow> addr \<Rightarrow> ('v, 'z) pystate \<Rightarrow> (error + tensor option) \<times> ('v, 'z) pystate"

text \<open>The arguments of a call that are not \<open>None\<close>, and whether a list repeats one value.\<close>

fun present :: "'a option list \<Rightarrow> 'a list" where
  "present [] = []"
| "present (None # xs) = present xs"
| "present (Some x # xs) = x # present xs"

fun all_equal :: "'a list \<Rightarrow> bool" where
  "all_equal [] = True"
| "all_equal (x # xs) = list_all (\<lambda>y. y = x) xs"

text \<open>
  Modelled from the spec: \<open>check_same_dtype\<close> (falkon.utils.helpers) is not under src/.
  Spec 4.1: "all operands (including output) must share numeric type"; an operand that is
  \<open>None\<close> (an output buffer that was not supplied) takes no part.
\<close>

definition check_same_dtype :: "tensor option list \<Rightarrow> bool" where
  "check_same_dtype args = all_equal (map dtype (present args))"

text \<open>
  Modelled from the spec: \<open>check_same_device\<close> (falkon.utils.helpers) is not under src/.
  Spec 4.1: "verify all operands reside on the same device"; an operand that is \<open>None\<close>
  takes no part.
\<close>

definition check_same_device :: "tensor option list \<Rightarrow> bool" where
  "check_same_device args = all_equal (map device (present args))"

text \<open>The f-strings of the three validators, each a function of the values it prints.\<close>

definition fstr_not_matrix :: "string \<Rightarrow> nat \<Rightarrow> string" where
  "fstr_not_matrix nm n = nm @ '' must be a vector or a 2D matrix. Found '' @ str_nat n @ ''D.''"

definition fstr_output_dimension :: "nat \<Rightarrow> nat \<Rightarrow> nat list \<Rightarrow> string" where
  "fstr_output_dimension n m found =
     ''Output dimension is incorrect. '' @
     ''Expected ('' @ str_nat n @ '', '' @ str_nat m @ '') found '' @ str_shape found"

definition fstr_matrix_dimensions :: "string \<Rightarrow> nat \<Rightarrow> nat \<Rightarrow> nat list \<Rightarrow> string" where
  "fstr_matrix_dimensions nm n m found =
     ''Dimensions of matrix '' @ nm @ '' are incorrect: '' @
     ''Expected ('' @ str_nat n @ '', '' @ str_nat m @ '') found '' @ str_shape found"

text \<open>Sequencing of two steps of which the first may raise.\<close>

definition ebind :: "error + 'a \<Rightarrow> ('a \<Rightarrow> error + 'b) \<Rightarrow> error + 'b" where
  "ebind m f = (case m of Inl e \<Rightarrow> Inl e | Inr x \<Rightarrow> f x)"

text \<open>\<open>Kernel._check_dmmv_dimensions\<close>, lines 23-61.\<close>

definition check_dmmv_dimensions ::
  "tensor \<Rightarrow> tensor \<Rightarrow> tensor option \<Rightarrow> tensor option \<Rightarrow> tensor option
    \<Rightarrow> error + (tensor \<times> tensor \<times> tensor option \<times> tensor option \<times> tensor option)" where
  "check_dmmv_dimensions X1 X2 v w out =
     (if v = None \<and> w = None then
        Inl (ValueError ''One of v and w must be specified to run fdMMV.'')
      else if dim X1 \<noteq> 2 then Inl (ValueError ''Matrix X1 must be 2D.'')
      else if dim X2 \<noteq> 2 then Inl (ValueError ''Matrix X2 must be 2D.'')
      else
        let v = (case v of
                   None \<Rightarrow> None
                 | Some v' \<Rightarrow> if dim v' = 1 then Some (reshape_col v') else Some v') in
        ebind (case v of
                 None \<Rightarrow> Inr ()
               | Some v' \<Rightarrow>
                   if dim v' \<noteq> 2 then
                     Inl (ValueError (fstr_not_matrix ''v'' (length (shape v'))))
                   else Inr ())
          (\<lambda>_.
        let w = (case w of
                   None \<Rightarrow> None
                 | Some w' \<Rightarrow> if dim w' = 1 then Some (reshape_col w') else Some w') in
        ebind (case w of
                 None \<Rightarrow> Inr ()
               | Some w' \<Rightarrow>
                   if dim w' \<noteq> 2 then
                     Inl (ValueError (fstr_not_matrix ''w'' (length (shape w'))))
                   else Inr ())
          (\<lambda>_.
        ebind (case v of
                 Some v' \<Rightarrow> size_at v' 1
               | None \<Rightarrow>
                   (case w of
                      Some w' \<Rightarrow> size_at w' 1
                    | None \<Rightarrow> Inl (AttributeError ''NoneType object has no attribute size'')))
          (\<lambda>T.
        ebind (size_at X2 0)
          (\<lambda>M.
        ebind (case out of
                 None \<Rightarrow> Inr ()
               | Some out' \<Rightarrow>
                   if shape out' \<noteq> [M, T] then
                     Inl (ValueError (fstr_output_dimension M T (shape out')))
                   else Inr ())
          (\<lambda>_.
        ebind (case v of
                 None \<Rightarrow> Inr ()
               | Some v' \<Rightarrow>
                   ebind (size_at X2 0)
                     (\<lambda>m. if shape v' \<noteq> [m, T] then
                            Inl (ValueError (fstr_matrix_dimensions ''v'' M T (shape v')))
                          else Inr ()))
          (\<lambda>_.
        ebind (case w of
                 None \<Rightarrow> Inr ()
               | Some w' \<Rightarrow>
                   ebind (size_at X1 0)
                     (\<lambda>n. if shape w' \<noteq> [n, T] then
                            Inl (ValueError (fstr_matrix_dimensions ''w'' n T (shape w')))
                          else Inr ()))
          (\<lambda>_.
        if \<not> check_same_dtype [Some X1, Some X2, v, w, out] then
          Inl (TypeError ''Data types of input matrices must be equal.'')
        else Inr (X1, X2, v, w, out)))))))))"

text \<open>\<open>Kernel._check_mmv_dimensions\<close>, lines 63-88.\<close>

definition check_mmv_dimensions ::
  "tensor \<Rightarrow> tensor \<Rightarrow> tensor \<Rightarrow> tensor option
    \<Rightarrow> error + (tensor \<times> tensor \<times> tensor \<times> tensor option)" where
  "check_mmv_dimensions X1 X2 v out =
     (if dim X1 \<noteq> 2 then Inl (ValueError ''Matrix X1 must be 2D.'')
      else if dim X2 \<noteq> 2 then Inl (ValueError ''Matrix X2 must be 2D.'')
      else
        let v = (if dim v = 1 then reshape_col v else v) in
        if dim v \<noteq> 2 then
          Inl (ValueError (fstr_not_matrix ''v'' (length (shape v))))
        else
        ebind (case out of
                 None \<Rightarrow> Inr ()
               | Some out' \<Rightarrow>
                   ebind (size_at X1 0)
                     (\<lambda>n. ebind (size_at v 1)
                     (\<lambda>t. if shape out' \<noteq> [n, t] then
                            Inl (ValueError (fstr_output_dimension n t (shape out')))
                          else Inr ())))
          (\<lambda>_.
        ebind (size_at X2 0)
          (\<lambda>m.
        ebind (size_at v 1)
          (\<lambda>t.
        if shape v \<noteq> [m, t] then
          Inl (ValueError (fstr_matrix_dimensions ''v'' m t (shape v)))
        else if \<not> check_same_dtype [Some X1, Some X2, Some v, out] then
          Inl (TypeError ''Data types of input matrices must be equal.'')
        else Inr (X1, X2, v, out)))))"

text \<open>\<open>Kernel._check_mm_dimensions\<close>, lines 90-107.\<close>

definition check_mm_dimensions ::
  "tensor \<Rightarrow> tensor \<Rightarrow> tensor option \<Rightarrow> error + (tensor \<times> tensor \<times> tensor option)" where
  "check_mm_dimensions X1 X2 out =
     (if dim X1 \<noteq> 2 then Inl (ValueError ''Matrix X1 must be 2D.'')
      else if dim X2 \<noteq> 2 then Inl (ValueError ''Matrix X2 must be 2D.'')
      else
        ebind (size_at X1 0)
          (\<lambda>N.
        ebind (size_at X2 0)
          (\<lambda>M.
        ebind (case out of
                 None \<Rightarrow> Inr ()
               | Some out' \<Rightarrow>
                   if shape out' \<noteq> [N, M] then
                     Inl (ValueError (fstr_output_dimension N M (shape out')))
                   else Inr ())
          (\<lambda>_.
        if \<not> check_same_dtype [Some X1, Some X2, out] then
          Inl (TypeError ''Data types of input matrices must be equal.'')
        else Inr (X1, X2, out)))))"

text \<open>\<open>Kernel._check_device_properties\<close>, lines 109-112. It does not read \<open>opt\<close>.\<close>

definition check_device_properties ::
  "tensor option list \<Rightarrow> string \<Rightarrow> addr option \<Rightarrow> error + unit" where
  "check_device_properties args fn_name opt =
     (if \<not> check_same_device args then
        Inl (RuntimeError (''All input arguments to '' @ fn_name @ '' must be on the same device''))
      else Inr ())"

text \<open>
  \<open>dataclasses.asdict(opt)\<close> reads every field of the object at \<open>opt\<close>;
  \<open>dataclasses.replace(obj, **changes)\<close> builds a new object from \<open>obj\<close> with the fields
  named in \<open>changes\<close> replaced, and leaves \<open>obj\<close> as it is. The new object takes the
  first unused address.
\<close>

definition dataclasses_asdict :: "addr \<Rightarrow> ('v, 'z) pystate \<Rightarrow> 'z FalkonOptions" where
  "dataclasses_asdict opt st = options st opt"

definition dataclasses_replace ::
  "addr \<Rightarrow> 'z FalkonOptions \<Rightarrow> ('v, 'z) pystate \<Rightarrow> addr \<times> ('v, 'z) pystate" where
  "dataclasses_replace obj changes st =
     (let new = (options st obj)\<lparr>use_cpu := use_cpu changes,
                                 keops_active := keops_active changes,
                                 other_options := other_options changes\<rparr>;
          a = next_id st
      in (a, st\<lparr>options := (options st)(a := new), next_id := Suc a\<rparr>))"

text \<open>The three warnings, lines 130-134, 165-169 and 200-204.\<close>

definition mm_warning :: string where
  "mm_warning =
     ''kernel backend was chosen to be CPU, but GPU input tensors found. '' @
     ''Defaulting to use the GPU (note this may cause issues later). '' @
     ''To force usage of the CPU backend, please pass CPU tensors; '' @
     ''to avoid this warning if the GPU backend is '' @
     ''desired, check your options (i.e. set 'use_cpu=False').''"

definition mmv_warning :: string where
  "mmv_warning =
     ''kernel-vector product backend was chosen to be CPU, but GPU input '' @
     ''tensors found. Defaulting to use the GPU (note this may '' @
     ''cause issues later). To force usage of the CPU backend, '' @
     ''please pass CPU tensors; to avoid this warning if the GPU backend is '' @
     ''desired, check your options (i.e. set 'use_cpu=False').''"

definition dmmv_warning :: string where
  "dmmv_warning =
     ''kernel-vector double product backend was chosen to be CPU, but GPU '' @
     ''input tensors found. Defaulting to use the GPU (note this may '' @
     ''cause issues later). To force usage of the CPU backend, '' @
     ''please pass CPU tensors; to avoid this warning if the GPU backend is '' @
     ''desired, check your options (i.e. set 'use_cpu=False').''"

definition sparsity_error :: error where
  "sparsity_error = ValueError ''Either all or none of 'X1', 'X2' must be sparse.''"

text \<open>
  The three resolvers. None reads \<open>self\<close>, and each only reads its options record, so the
  model passes the record's value. Python's \<open>all\<close> and \<open>any\<close> are \<open>list_all id\<close> and
  \<open>list_ex id\<close>. \<open>Kernel._decide_mm_impl\<close>, lines 123-146.
\<close>

definition decide_mm_impl ::
  "('v, 'z) env \<Rightarrow> tensor \<Rightarrow> tensor \<Rightarrow> 'z FalkonOptions \<Rightarrow> ('v, 'z) pystate
    \<Rightarrow> (error + mm_backend) \<times> ('v, 'z) pystate" where
  "decide_mm_impl E X1 X2 opt st =
     (let use_cuda = decide_cuda E opt;
          sparsity = check_sparse E [X1, X2]
      in
      if \<not> list_all id sparsity \<and> list_ex id sparsity then (Inl sparsity_error, st)
      else
        let sparsity = list_all id sparsity;
            (use_cuda, st) =
              (if dev_type (device X1) = ''cuda'' \<and> \<not> use_cuda then (True, warn mm_warning st)
               else (use_cuda, st))
        in
        if use_cuda then
          (case import_fmm_cuda E of
             Some e \<Rightarrow> (Inl e, st)
           | None \<Rightarrow> if sparsity then (Inr fmm_cuda_sparse, st) else (Inr fmm_cuda, st))
        else if sparsity then (Inr fmm_cpu_sparse, st)
        else (Inr fmm_cpu, st))"

text \<open>\<open>Kernel._decide_mmv_impl\<close>, lines 159-182.\<close>

definition decide_mmv_impl ::
  "('v, 'z) env \<Rightarrow> tensor \<Rightarrow> tensor \<Rightarrow> tensor \<Rightarrow> 'z FalkonOptions \<Rightarrow> ('v, 'z) pystate
    \<Rightarrow> (error + mmv_backend) \<times> ('v, 'z) pystate" where
  "decide_mmv_impl E X1 X2 v opt st =
     (let use_cuda = decide_cuda E opt;
          sparsity = check_sparse E [X1, X2]
      in
      if \<not> list_all id sparsity \<and> list_ex id sparsity then (Inl sparsity_error, st)
      else
        let (use_cuda, st) =
              (if dev_type (device X1) = ''cuda'' \<and> \<not> use_cuda then (True, warn mmv_warning st)
               else (use_cuda, st));
            sparsity = list_all id sparsity
        in
        if use_cuda then
          (case import_fmmv_cuda E of
             Some e \<Rightarrow> (Inl e, st)
           | None \<Rightarrow> if sparsity then (Inr fmmv_cuda_sparse, st) else (Inr fmmv_cuda, st))
        else if sparsity then (Inr fmmv_cpu_sparse, st)
        else (Inr fmmv_cpu, st))"

text \<open>\<open>Kernel._decide_dmmv_impl\<close>, lines 194-217.\<close>

definition decide_dmmv_impl ::
  "('v, 'z) env \<Rightarrow> tensor \<Rightarrow> tensor \<Rightarrow> tensor option \<Rightarrow> tensor option \<Rightarrow> 'z FalkonOptions
    \<Rightarrow> ('v, 'z) pystate \<Rightarrow> (error + dmmv_backend) \<times> ('v, 'z) pystate" where
  "decide_dmmv_impl E X1 X2 v w opt st =
     (let use_cuda = decide_cuda E opt;
          sparsity = check_sparse E [X1, X2]
      in
      if \<not> list_all id sparsity \<and> list_ex id sparsity then (Inl sparsity_error, st)
      else
        let (use_cuda, st) =
              (if dev_type (device X1) = ''cuda'' \<and> \<not> use_cuda then (True, warn dmmv_warning st)
               else (use_cuda, st));
            sparsity = list_all id sparsity
        in
        if use_cuda then
          (case import_fmmv_cuda E of
             Some e \<Rightarrow> (Inl e, st)
           | None \<Rightarrow> if sparsity then (Inr fdmmv_cuda_sparse, st) else (Inr fdmmv_cuda, st))
        else if sparsity then (Inr fdmmv_cpu_sparse, st)
        else (Inr fdmmv_cpu, st))"

text \<open>
  The three public operations. \<open>opt\<close> is \<open>None\<close> or a reference to the caller's options
  object; \<open>params self\<close> refers to the kernel's own. \<open>Kernel.__call__\<close>, lines 114-121.
\<close>

definition call ::
  "('v, 'z) env \<Rightarrow> kernel \<Rightarrow> tensor \<Rightarrow> tensor \<Rightarrow> tensor option \<Rightarrow> addr option \<Rightarrow> ('v, 'z) pystate
    \<Rightarrow> (error + tensor option) \<times> ('v, 'z) pystate" where
  "call E self X1 X2 out opt st =
     (case check_mm_dimensions X1 X2 out of
        Inl e \<Rightarrow> (Inl e, st)
      | Inr (X1, X2, out) \<Rightarrow>
          (case check_device_properties [Some X1, Some X2, out] ''kernel'' opt of
             Inl e \<Rightarrow> (Inl e, st)
           | Inr _ \<Rightarrow>
               let (params', st) =
                     (case opt of
                        None \<Rightarrow> (params self, st)
                      | Some opt' \<Rightarrow>
                          dataclasses_replace (params self) (dataclasses_asdict opt' st) st)
               in
               (case decide_mm_impl E X1 X2 (options st params') st of
                  (Inl e, st) \<Rightarrow> (Inl e, st)
                | (Inr mm_impl, st) \<Rightarrow> call_mm E mm_impl X1 X2 self out params' st)))"

text \<open>\<open>Kernel.mmv\<close>, lines 149-157.\<close>

definition mmv ::
  "('v, 'z) env \<Rightarrow> kernel \<Rightarrow> tensor \<Rightarrow> tensor \<Rightarrow> tensor \<Rightarrow> tensor option \<Rightarrow> addr option
    \<Rightarrow> ('v, 'z) pystate \<Rightarrow> (error + tensor option) \<times> ('v, 'z) pystate" where
  "mmv E self X1 X2 v out opt st =
     (case check_mmv_dimensions X1 X2 v out of
        Inl e \<Rightarrow> (Inl e, st)
      | Inr (X1, X2, v, out) \<Rightarrow>
          (case check_device_properties [Some X1, Some X2, Some v, out] ''mmv'' opt of
             Inl e \<Rightarrow> (Inl e, st)
           | Inr _ \<Rightarrow>
               let (params', st) =
                     (case opt of
                        None \<Rightarrow> (params self, st)
                      | Some opt' \<Rightarrow>
                          dataclasses_replace (params self) (dataclasses_asdict opt' st) st)
               in
               (case decide_mmv_impl E X1 X2 v (options st params') st of
                  (Inl e, st) \<Rightarrow> (Inl e, st)
                | (Inr mmv_impl, st) \<Rightarrow> call_mmv E mmv_impl X1 X2 v self out params' st)))"

text \<open>\<open>Kernel.dmmv\<close>, lines 185-192.\<close>

definition dmmv ::
  "('v, 'z) env \<Rightarrow> kernel \<Rightarrow> tensor \<Rightarrow> tensor \<Rightarrow> tensor option \<Rightarrow> tensor option \<Rightarrow> tensor option
    \<Rightarrow> addr option \<Rightarrow> ('v, 'z) pystate \<Rightarrow> (error + tensor option) \<times> ('v, 'z) pystate" where
  "dmmv E self X1 X2 v w out opt st =
     (case check_dmmv_dimensions X1 X2 v w out of
        Inl e \<Rightarrow> (Inl e, st)
      | Inr (X1, X2, v, w, out) \<Rightarrow>
          (case check_device_properties [Some X1, Some X2, v, w, out] ''dmmv'' opt of
             Inl e \<Rightarrow> (Inl e, st)
           | Inr _ \<Rightarrow>
               let (params', st) =
                     (case opt of
                        None \<Rightarrow> (params self, st)
                      | Some opt' \<Rightarrow>
                          dataclasses_replace (params self) (dataclasses_asdict opt' st) st)
               in
               (case decide_dmmv_impl E X1 X2 v w (options st params') st of
                  (Inl e, st) \<Rightarrow> (Inl e, st)
                | (Inr dmmv_impl, st) \<Rightarrow> call_dmmv E dmmv_impl X1 X2 v w self out params' st)))"

section \<open>Concrete inputs\<close>

text \<open>
  The scenario of the spec's section 8 (\<open>X1\<close> of shape (100, 10), \<open>X2\<close> of shape (80, 10),
  \<open>v\<close> of shape (80, 3), dense, on the CPU) and variations of it. A storage holds an
  integer in place of its numbers.
\<close>

definition cpu :: torch_device where
  "cpu = \<lparr>dev_type = ''cpu'', dev_index = None\<rparr>"

definition cuda0 :: torch_device where
  "cuda0 = \<lparr>dev_type = ''cuda'', dev_index = Some 0\<rparr>"

definition dense_tensor :: "addr \<Rightarrow> nat list \<Rightarrow> torch_device \<Rightarrow> tensor" where
  "dense_tensor a s d =
     \<lparr>cls = TorchTensor, storage = a, shape = s, dtype = float32, device = d, is_sparse = False\<rparr>"

definition sparse_tensor :: "addr \<Rightarrow> nat list \<Rightarrow> torch_device \<Rightarrow> tensor" where
  "sparse_tensor a s d =
     \<lparr>cls = SparseTensor, storage = a, shape = s, dtype = float32, device = d, is_sparse = False\<rparr>"

definition ex_X1 :: tensor where
  "ex_X1 = dense_tensor 1 [100, 10] cpu"

definition ex_X2 :: tensor where
  "ex_X2 = dense_tensor 2 [80, 10] cpu"

definition ex_v :: tensor where
  "ex_v = dense_tensor 3 [80, 3] cpu"

definition ex_w :: tensor where
  "ex_w = dense_tensor 4 [100, 3] cpu"

definition ex_wide :: tensor where
  "ex_wide = dense_tensor 5 [100, 60] cpu"

definition ex_out_bad :: tensor where
  "ex_out_bad = dense_tensor 6 [99, 3] cpu"

definition ex_v3d :: tensor where
  "ex_v3d = dense_tensor 7 [80, 3, 1] cpu"

definition ex_v1d :: tensor where
  "ex_v1d = dense_tensor 8 [80] cpu"

definition ex_X1_sparse :: tensor where
  "ex_X1_sparse = sparse_tensor 9 [100, 10] cpu"

definition ex_X1_cuda :: tensor where
  "ex_X1_cuda = dense_tensor 11 [100, 10] cuda0"

definition ex_X2_cuda :: tensor where
  "ex_X2_cuda = dense_tensor 12 [80, 10] cuda0"

definition ex_v_cuda :: tensor where
  "ex_v_cuda = dense_tensor 13 [80, 3] cuda0"

definition ex_X1_sparse_cuda :: tensor where
  "ex_X1_sparse_cuda = sparse_tensor 14 [100, 10] cuda0"

definition ex_v_double :: tensor where
  "ex_v_double = (dense_tensor 15 [80, 3] cpu)\<lparr>dtype := float64\<rparr>"

definition ex_auto :: "unit FalkonOptions" where
  "ex_auto = \<lparr>use_cpu = False, keops_active = ''auto'', other_options = ()\<rparr>"

definition ex_force :: "unit FalkonOptions" where
  "ex_force = \<lparr>use_cpu = False, keops_active = ''force'', other_options = ()\<rparr>"

definition ex_no :: "unit FalkonOptions" where
  "ex_no = \<lparr>use_cpu = False, keops_active = ''no'', other_options = ()\<rparr>"

definition ex_cpu_only :: "unit FalkonOptions" where
  "ex_cpu_only = \<lparr>use_cpu = True, keops_active = ''auto'', other_options = ()\<rparr>"

definition ex_kernel :: kernel where
  "ex_kernel = \<lparr>name = ''Gaussian'', kernel_type = ''l2distance'', params = 0\<rparr>"

text \<open>
  A state with two options objects: the kernel's own at address 0 (CPU only) and a
  caller's at address 1 (force mode). The storage at address \<open>a\<close> holds \<open>a\<close>.
\<close>

definition ex_state :: "(int, unit) pystate" where
  "ex_state =
     \<lparr>storages = int,
      options = (\<lambda>a. if a = 0 then ex_cpu_only else ex_force),
      next_id = 2,
      warnings = []\<rparr>"

text \<open>
  A stand-in for a vector-product primitive: it logs its call, fails on a missing vector
  as \<open>Kernel.mmv\<close> would, and otherwise writes twice the vector's contents into the
  buffer it returns (\<open>out\<close>, or a new one of shape (rows of \<open>X1\<close>, columns of \<open>v\<close>)).
\<close>

definition ex_mmv_fn ::
  "tensor \<Rightarrow> tensor \<Rightarrow> tensor option \<Rightarrow> kernel \<Rightarrow> tensor option \<Rightarrow> addr \<Rightarrow> (int, unit) pystate
    \<Rightarrow> (error + tensor option) \<times> (int, unit) pystate" where
  "ex_mmv_fn X1 X2 v kern out opt st =
     (case v of
        None \<Rightarrow>
          (Inl (AttributeError ''NoneType object has no attribute dim''), warn ''mmv_fn called'' st)
      | Some u \<Rightarrow>
          let r = (case out of
                     Some out' \<Rightarrow> out'
                   | None \<Rightarrow> dense_tensor (storage u + 10) [hd (shape X1), last (shape u)] (device X1))
          in (Inr (Some r),
              (warn ''mmv_fn called'' st)
                \<lparr>storages := (storages st)(storage r := 2 * storages st (storage u))\<rparr>))"

definition ex_torch_add :: "tensor \<Rightarrow> int \<Rightarrow> tensor \<Rightarrow> int \<Rightarrow> error + int" where
  "ex_torch_add t a u b =
     (if shape t = shape u then Inr (a + b)
      else Inl (RuntimeError ''The size of tensor a must match the size of tensor b''))"

text \<open>
  Stand-ins for what \<open>kernel.py\<close> imports: CUDA is preferred unless \<open>use_cpu\<close> is set, an
  operand is sparse when it is a \<open>SparseTensor\<close>, and every backend fills the buffer it
  returns.
\<close>

definition ex_backend ::
  "tensor \<Rightarrow> nat \<Rightarrow> tensor option \<Rightarrow> (int, unit) pystate
    \<Rightarrow> (error + tensor option) \<times> (int, unit) pystate" where
  "ex_backend X1 cols out st =
     (let r = (case out of
                 Some out' \<Rightarrow> out'
               | None \<Rightarrow> dense_tensor 100 [hd (shape X1), cols] (device X1))
      in (Inr (Some r), st\<lparr>storages := (storages st)(storage r := 1)\<rparr>))"

definition ex_env :: "(int, unit) env" where
  "ex_env =
     \<lparr>decide_cuda = (\<lambda>opt. \<not> use_cpu opt),
      check_sparse = map (\<lambda>T. cls T = SparseTensor),
      import_fmm_cuda = None,
      import_fmmv_cuda = None,
      call_mm = (\<lambda>impl X1 X2 kern out opt. ex_backend X1 (hd (shape X2)) out),
      call_mmv = (\<lambda>impl X1 X2 v kern out opt. ex_backend X1 (last (shape v)) out),
      call_dmmv = (\<lambda>impl X1 X2 v w kern out opt. ex_backend X2 3 out)\<rparr>"

definition ex_env_no_cuda :: "(int, unit) env" where
  "ex_env_no_cuda =
     ex_env\<lparr>import_fmm_cuda := Some (ModuleNotFoundError ''No module named falkon.mmv_ops.fmm_cuda''),
            import_fmmv_cuda := Some (ModuleNotFoundError ''No module named falkon.mmv_ops.fmmv_cuda'')\<rparr>"

text \<open>
  What the stand-in primitive returns on the scenario (\<open>ex_t1\<close>, in the state \<open>ex_st1\<close>).
\<close>

definition ex_t1 :: tensor where
  "ex_t1 = dense_tensor 13 [100, 3] cpu"

definition ex_st1 :: "(int, unit) pystate" where
  "ex_st1 = (warn ''mmv_fn called'' ex_state)\<lparr>storages := (storages ex_state)(13 := 6)\<rparr>"

section \<open>Properties of keops\_helpers.py\<close>

text \<open>
  C2. On 2D operands \<open>should_use_keops\<close> returns true exactly when both operands are
  dense, \<open>decide_keops(opt)\<close> holds, and the first operand has at most 50 columns or the
  mode is \<open>force\<close>. So it is false above 50 columns in mode \<open>auto\<close>, true at any width in
  mode \<open>force\<close> (the operands dense, \<open>decide_keops\<close> true), and false when an operand is
  sparse, when \<open>decide_keops\<close> is false, and, with \<open>decide_keops\<close> as the spec describes
  it, when the mode is off.
\<close>

theorem should_use_keops_decision:
  "(dim T1 = 2 \<longrightarrow>
      should_use_keops dk T1 T2 opt =
        Inr (is_dense T1 \<and> is_dense T2 \<and> dk opt \<and>
             (shape T1 ! 1 \<le> 50 \<or> keops_active opt = ''force'')))
   \<and> (dim T1 = 2 \<and> 50 < shape T1 ! 1 \<and> keops_active opt = ''auto'' \<longrightarrow>
        should_use_keops dk T1 T2 opt = Inr False)
   \<and> (dim T1 = 2 \<and> is_dense T1 \<and> is_dense T2 \<and> dk opt \<and> keops_active opt = ''force'' \<longrightarrow>
        should_use_keops dk T1 T2 opt = Inr True)
   \<and> (\<not> is_dense T1 \<or> \<not> is_dense T2 \<longrightarrow> should_use_keops dk T1 T2 opt = Inr False)
   \<and> (\<not> dk opt \<longrightarrow> should_use_keops dk T1 T2 opt = Inr False)
   \<and> (keops_active opt = ''no'' \<longrightarrow>
        should_use_keops (decide_keops_spec available) T1 T2 opt = Inr False)"
  by (auto simp: should_use_keops_def is_dense_def dim_def shape_at_def decide_keops_spec_def)

theorem should_use_keops_decision_witness:
  "dim ex_X1 = 2 \<and> dim ex_wide = 2
   \<and> should_use_keops (decide_keops_spec True) ex_X1 ex_X2 ex_auto = Inr True
   \<and> should_use_keops (decide_keops_spec True) ex_wide ex_X2 ex_auto = Inr False
   \<and> should_use_keops (decide_keops_spec True) ex_wide ex_X2 ex_force = Inr True
   \<and> should_use_keops (decide_keops_spec True) ex_X1_sparse ex_X2 ex_force = Inr False
   \<and> should_use_keops (decide_keops_spec False) ex_X1 ex_X2 ex_force = Inr False
   \<and> should_use_keops (decide_keops_spec True) ex_X1 ex_X2 ex_no = Inr False"
  using should_use_keops_decision [of ex_X1 "decide_keops_spec True" ex_X2 ex_auto True]
    should_use_keops_decision [of ex_wide "decide_keops_spec True" ex_X2 ex_auto True]
    should_use_keops_decision [of ex_wide "decide_keops_spec True" ex_X2 ex_force True]
    should_use_keops_decision [of ex_X1_sparse "decide_keops_spec True" ex_X2 ex_force True]
    should_use_keops_decision [of ex_X1 "decide_keops_spec False" ex_X2 ex_force True]
    should_use_keops_decision [of ex_X1 "decide_keops_spec True" ex_X2 ex_no True]
  by (simp add: ex_X1_def ex_X2_def ex_wide_def ex_X1_sparse_def dense_tensor_def
        sparse_tensor_def ex_auto_def ex_force_def ex_no_def dim_def is_dense_def
        decide_keops_spec_def)

text \<open>
  C1. \<open>keops_dmmv_helper\<close> with both \<open>v\<close> and \<open>w\<close> present calls \<open>mmv_fn(X1, X2, v)\<close>,
  adds \<open>w\<close> to the result \<open>t1\<close> in place (the sum overwrites the storage of \<open>t1\<close>, and the
  same tensor \<open>t1\<close> goes on), and returns \<open>mmv_fn(X2, X1, t1)\<close>. With \<open>v\<close> absent it
  returns \<open>mmv_fn(X2, X1, w)\<close> from the initial state, with no first stage. With \<open>w\<close>
  absent it returns \<open>mmv_fn(X2, X1, mmv_fn(X1, X2, v))\<close> and the state between the two calls
  is untouched. The second call always has the operands swapped.
\<close>

theorem keops_dmmv_helper_cases:
  "(mmv_fn X1 X2 (Some v) kern None opt st = (Inr (Some t1), st1) \<and>
    torch_add t1 (storages st1 (storage t1)) w (storages st1 (storage w)) = Inr c \<longrightarrow>
      keops_dmmv_helper torch_add X1 X2 (Some v) (Some w) kern out opt mmv_fn st =
        mmv_fn X2 X1 (Some t1) kern out opt
          (st1\<lparr>storages := (storages st1)(storage t1 := c)\<rparr>))
   \<and> keops_dmmv_helper torch_add X1 X2 None (Some w) kern out opt mmv_fn st =
        mmv_fn X2 X1 (Some w) kern out opt st
   \<and> (mmv_fn X1 X2 (Some v) kern None opt st = (Inr t1', st1') \<longrightarrow>
        keops_dmmv_helper torch_add X1 X2 (Some v) None kern out opt mmv_fn st =
          mmv_fn X2 X1 t1' kern out opt st1')"
  by (simp add: keops_dmmv_helper_def add_inplace_def)

theorem keops_dmmv_helper_cases_witness:
  "ex_mmv_fn ex_X1 ex_X2 (Some ex_v) ex_kernel None 0 ex_state = (Inr (Some ex_t1), ex_st1)
   \<and> ex_torch_add ex_t1 (storages ex_st1 (storage ex_t1)) ex_w (storages ex_st1 (storage ex_w)) =
       Inr 10
   \<and> keops_dmmv_helper ex_torch_add ex_X1 ex_X2 (Some ex_v) (Some ex_w) ex_kernel None 0
         ex_mmv_fn ex_state =
       ex_mmv_fn ex_X2 ex_X1 (Some ex_t1) ex_kernel None 0
         (ex_st1\<lparr>storages := (storages ex_st1)(13 := 10)\<rparr>)
   \<and> fst (keops_dmmv_helper ex_torch_add ex_X1 ex_X2 (Some ex_v) (Some ex_w) ex_kernel None 0
         ex_mmv_fn ex_state) =
       Inr (Some (dense_tensor 23 [80, 3] cpu))
   \<and> storages (snd (keops_dmmv_helper ex_torch_add ex_X1 ex_X2 (Some ex_v) (Some ex_w) ex_kernel
         None 0 ex_mmv_fn ex_state)) 23 = 20
   \<and> keops_dmmv_helper ex_torch_add ex_X1 ex_X2 None (Some ex_w) ex_kernel None 0
         ex_mmv_fn ex_state =
       ex_mmv_fn ex_X2 ex_X1 (Some ex_w) ex_kernel None 0 ex_state
   \<and> storages (snd (keops_dmmv_helper ex_torch_add ex_X1 ex_X2 None (Some ex_w) ex_kernel
         None 0 ex_mmv_fn ex_state)) 14 = 8
   \<and> keops_dmmv_helper ex_torch_add ex_X1 ex_X2 (Some ex_v) None ex_kernel None 0
         ex_mmv_fn ex_state =
       ex_mmv_fn ex_X2 ex_X1 (Some ex_t1) ex_kernel None 0 ex_st1
   \<and> storages (snd (keops_dmmv_helper ex_torch_add ex_X1 ex_X2 (Some ex_v) None ex_kernel
         None 0 ex_mmv_fn ex_state)) 23 = 12"
  using keops_dmmv_helper_cases [of ex_mmv_fn ex_X1 ex_X2 ex_v ex_kernel 0 ex_state ex_t1 ex_st1
      ex_torch_add ex_w 10 None "Some ex_t1" ex_st1]
  by (simp add: ex_mmv_fn_def ex_torch_add_def ex_X1_def ex_X2_def ex_v_def ex_w_def ex_t1_def
        ex_st1_def dense_tensor_def ex_state_def warn_def Let_def)

text \<open>
  C10, as the code has it. With both \<open>v\<close> and \<open>w\<close> absent the second branch
  (\<open>elif v is None\<close>) is taken: the helper calls \<open>mmv_fn(X2, X1, None, kernel, out, opt)\<close>
  once and returns what that call returns or raises.
\<close>

theorem keops_dmmv_helper_both_absent:
  "keops_dmmv_helper torch_add X1 X2 None None kern out opt mmv_fn st =
     mmv_fn X2 X1 None kern out opt st"
  by (simp add: keops_dmmv_helper_def)

theorem keops_dmmv_helper_both_absent_witness:
  "keops_dmmv_helper ex_torch_add ex_X1 ex_X2 None None ex_kernel None 0 ex_mmv_fn ex_state =
     ex_mmv_fn ex_X2 ex_X1 None ex_kernel None 0 ex_state"
  by (rule keops_dmmv_helper_both_absent)

text \<open>
  C10, as the claim has it (no branch matches, \<open>mmv_fn\<close> is never invoked, no error is
  raised, \<open>None\<close> is returned), fails on the stand-in primitive: the call is logged and its
  \<open>AttributeError\<close> comes out of the helper.
\<close>

theorem keops_dmmv_helper_both_absent_counterexample:
  "keops_dmmv_helper ex_torch_add ex_X1 ex_X2 None None ex_kernel None 0 ex_mmv_fn ex_state \<noteq>
     (Inr None, ex_state)
   \<and> fst (keops_dmmv_helper ex_torch_add ex_X1 ex_X2 None None ex_kernel None 0 ex_mmv_fn ex_state) =
       Inl (AttributeError ''NoneType object has no attribute dim'')
   \<and> warnings (snd (keops_dmmv_helper ex_torch_add ex_X1 ex_X2 None None ex_kernel None 0
         ex_mmv_fn ex_state)) = [''mmv_fn called'']"
  by (simp add: keops_dmmv_helper_def ex_mmv_fn_def ex_state_def warn_def)

text \<open>
  C3. \<open>keops_can_handle_dmmv\<close> answers true exactly when the single check answers true
  for \<open>(X1, X2, v)\<close> and for \<open>(X2, X1, w)\<close>; whenever the two calls of
  \<open>should_use_keops\<close> return values, it returns their conjunction, and on 2D operands they
  do.
\<close>

theorem keops_can_handle_dmmv_both_orders:
  "(keops_can_handle_dmmv dk X1 X2 v w opt = Inr True \<longleftrightarrow>
      keops_can_handle_mmv dk X1 X2 v opt = Inr True \<and>
      keops_can_handle_mmv dk X2 X1 w opt = Inr True)
   \<and> (should_use_keops dk X1 X2 opt = Inr a \<and> should_use_keops dk X2 X1 opt = Inr b \<longrightarrow>
        keops_can_handle_dmmv dk X1 X2 v w opt = Inr (a \<and> b))
   \<and> (dim X1 = 2 \<and> dim X2 = 2 \<longrightarrow>
        (\<exists>a b. should_use_keops dk X1 X2 opt = Inr a \<and> should_use_keops dk X2 X1 opt = Inr b))"
  by (auto simp: keops_can_handle_dmmv_def keops_can_handle_mmv_def should_use_keops_def
        dim_def shape_at_def split: sum.splits)

theorem keops_can_handle_dmmv_both_orders_witness:
  "should_use_keops (decide_keops_spec True) ex_X1 ex_X2 ex_auto = Inr True
   \<and> should_use_keops (decide_keops_spec True) ex_X2 ex_X1 ex_auto = Inr True
   \<and> keops_can_handle_dmmv (decide_keops_spec True) ex_X1 ex_X2 (Some ex_v) (Some ex_w) ex_auto =
       Inr True
   \<and> should_use_keops (decide_keops_spec True) ex_X1 ex_X1_sparse ex_auto = Inr False
   \<and> keops_can_handle_dmmv (decide_keops_spec True) ex_X1 ex_X1_sparse (Some ex_v) (Some ex_w)
       ex_auto = Inr False
   \<and> dim ex_X1 = 2 \<and> dim ex_X2 = 2"
  using keops_can_handle_dmmv_both_orders [of "decide_keops_spec True" ex_X1 ex_X2 "Some ex_v"
      "Some ex_w" ex_auto True True]
    keops_can_handle_dmmv_both_orders [of "decide_keops_spec True" ex_X1 ex_X1_sparse "Some ex_v"
      "Some ex_w" ex_auto False False]
  by (simp add: should_use_keops_def shape_at_def decide_keops_spec_def dim_def ex_X1_def ex_X2_def
        ex_X1_sparse_def dense_tensor_def sparse_tensor_def ex_auto_def)

text \<open>
  C8. When the import of the engine failed (\<open>_has_keops\<close> is false), \<open>keops_mmv\<close> raises
  \<open>ModuleNotFoundError\<close> naming pykeops for every argument list, in the state it was
  called in: nothing has run. An operand pair that is not eligible is another matter: the
  eligibility checks return \<open>False\<close> as a value when an operand is sparse or when
  \<open>decide_keops\<close> says no (as it does, by the spec, when the engine is not installed), and
  on 2D operands they return a value in every case.
\<close>

theorem keops_mmv_not_installed:
  "(\<not> has_keops run \<longrightarrow>
      keops_mmv run X1 X2 v out formula aliases other_vars opt st =
        (Inl (ModuleNotFoundError
           (''Module 'pykeops' is not properly installed. '' @
            ''Please install 'pykeops' before running 'keops_mmv'.'')), st))
   \<and> (\<not> is_dense X1 \<or> \<not> is_dense X2 \<or> \<not> dk fopt \<longrightarrow>
        keops_can_handle_mmv dk X1 X2 a fopt = Inr False \<and>
        keops_can_handle_dmmv dk X1 X2 a b fopt = Inr False)
   \<and> keops_can_handle_mmv (decide_keops_spec False) X1 X2 a fopt = Inr False
   \<and> keops_can_handle_dmmv (decide_keops_spec False) X1 X2 a b fopt = Inr False
   \<and> (dim X1 = 2 \<and> dim X2 = 2 \<longrightarrow>
        keops_can_handle_mmv dk X1 X2 a fopt \<noteq> Inl e \<and>
        keops_can_handle_dmmv dk X1 X2 a b fopt \<noteq> Inl e)"
  by (auto simp: keops_mmv_def keops_can_handle_dmmv_def keops_can_handle_mmv_def
        should_use_keops_def is_dense_def decide_keops_spec_def dim_def shape_at_def
        split: sum.splits)

theorem keops_mmv_not_installed_witness:
  "\<not> has_keops (None :: (tensor \<Rightarrow> tensor \<Rightarrow> tensor \<Rightarrow> tensor list option \<Rightarrow> tensor option
        \<Rightarrow> string \<Rightarrow> string list \<Rightarrow> nat \<Rightarrow> string \<Rightarrow> addr \<Rightarrow> (int, unit) pystate
        \<Rightarrow> (error + tensor option) \<times> (int, unit) pystate) option)
   \<and> keops_mmv None ex_X1 ex_X2 ex_v None ''Exp(-SqDist(x1, x2)) * v'' [''x1 = Vi(10)''] None
         (0 :: addr) ex_state =
       (Inl (ModuleNotFoundError
          (''Module 'pykeops' is not properly installed. '' @
           ''Please install 'pykeops' before running 'keops_mmv'.'')), ex_state)
   \<and> \<not> is_dense ex_X1_sparse
   \<and> keops_can_handle_mmv (decide_keops_spec True) ex_X1_sparse ex_X2 (Some ex_v) ex_auto =
       Inr False
   \<and> keops_can_handle_dmmv (decide_keops_spec True) ex_X1_sparse ex_X2 (Some ex_v) (Some ex_w)
       ex_auto = Inr False
   \<and> keops_can_handle_mmv (decide_keops_spec False) ex_X1 ex_X2 (Some ex_v) ex_auto = Inr False
   \<and> keops_can_handle_dmmv (decide_keops_spec False) ex_X1 ex_X2 (Some ex_v) (Some ex_w)
       ex_auto = Inr False
   \<and> dim ex_X1 = 2 \<and> dim ex_X2 = 2
   \<and> keops_can_handle_mmv (decide_keops_spec True) ex_X1 ex_X2 (Some ex_v) ex_auto \<noteq>
       Inl (IndexError ''tuple index out of range'')"
  using keops_mmv_not_installed [of None ex_X1_sparse ex_X2 ex_v None
      "''Exp(-SqDist(x1, x2)) * v''" "[''x1 = Vi(10)'']" None "0 :: addr" ex_state
      "decide_keops_spec True" ex_auto "Some ex_v" "Some ex_w" "IndexError ''tuple index out of range''"]
    keops_mmv_not_installed [of None ex_X1 ex_X2 ex_v None
      "''Exp(-SqDist(x1, x2)) * v''" "[''x1 = Vi(10)'']" None "0 :: addr" ex_state
      "decide_keops_spec True" ex_auto "Some ex_v" "Some ex_w" "IndexError ''tuple index out of range''"]
  by (simp add: has_keops_def is_dense_def dim_def ex_X1_def ex_X2_def ex_X1_sparse_def
        dense_tensor_def sparse_tensor_def)

section \<open>Properties of kernel.py\<close>

text \<open>
  C4. \<open>dmmv\<close> with neither \<open>v\<close> nor \<open>w\<close> raises "One of v and w must be specified to run
  fdMMV." whatever \<open>X1\<close>, \<open>X2\<close>, \<open>out\<close> and \<open>opt\<close> are, and leaves the state as it was:
  the test is the first statement of \<open>_check_dmmv_dimensions\<close>, ahead of every rank,
  shape, dtype and device check.
\<close>

theorem dmmv_requires_v_or_w:
  "check_dmmv_dimensions X1 X2 None None out =
     Inl (ValueError ''One of v and w must be specified to run fdMMV.'')
   \<and> dmmv E self X1 X2 None None out opt st =
       (Inl (ValueError ''One of v and w must be specified to run fdMMV.''), st)"
  by (simp add: dmmv_def check_dmmv_dimensions_def)

theorem dmmv_requires_v_or_w_witness:
  "dim ex_v3d \<noteq> 2
   \<and> check_dmmv_dimensions ex_v3d ex_X1_sparse_cuda None None (Some ex_v_double) =
       Inl (ValueError ''One of v and w must be specified to run fdMMV.'')
   \<and> dmmv ex_env ex_kernel ex_v3d ex_X1_sparse_cuda None None (Some ex_v_double) None ex_state =
       (Inl (ValueError ''One of v and w must be specified to run fdMMV.''), ex_state)"
  using dmmv_requires_v_or_w [of ex_v3d ex_X1_sparse_cuda "Some ex_v_double" ex_env ex_kernel
      None ex_state]
  by (simp add: dim_def ex_v3d_def dense_tensor_def)

lemma dim_reshape_col: "dim (reshape_col v) = 2"
  by (simp add: reshape_col_def dim_def)

lemma shape_reshape_col_vector: "dim v = 1 \<Longrightarrow> shape (reshape_col v) = [shape v ! 0, 1]"
  by (cases "shape v") (auto simp: reshape_col_def dim_def)

lemma size_at_matrix:
  "dim T = 2 \<Longrightarrow> size_at T 0 = Inr (shape T ! 0)"
  "dim T = 2 \<Longrightarrow> size_at T (Suc 0) = Inr (shape T ! Suc 0)"
  by (simp_all add: size_at_def)

lemma ebind_Inr: "ebind (Inr x) f = f x"
  by (simp add: ebind_def)

lemma ebind_Inl: "ebind (Inl e) f = Inl e"
  by (simp add: ebind_def)

lemma check_same_dtype_mmv:
  "check_same_dtype [Some X1, Some X2, Some v, out] \<longleftrightarrow>
     dtype X2 = dtype X1 \<and> dtype v = dtype X1 \<and>
     (case out of None \<Rightarrow> True | Some out' \<Rightarrow> dtype out' = dtype X1)"
  by (auto simp: check_same_dtype_def split: option.splits)

lemma check_mmv_dimensions_matrix:
  assumes "dim X1 = 2" and "dim X2 = 2" and "dim u = 2"
    and "(if dim v = 1 then reshape_col v else v) = u"
  shows "check_mmv_dimensions X1 X2 v out =
     (if \<not> (case out of None \<Rightarrow> True | Some out' \<Rightarrow> shape out' = [shape X1 ! 0, shape u ! 1])
      then Inl (ValueError (fstr_output_dimension (shape X1 ! 0) (shape u ! 1)
                  (case out of None \<Rightarrow> [] | Some out' \<Rightarrow> shape out')))
      else if shape u \<noteq> [shape X2 ! 0, shape u ! 1]
      then Inl (ValueError (fstr_matrix_dimensions ''v'' (shape X2 ! 0) (shape u ! 1) (shape u)))
      else if \<not> check_same_dtype [Some X1, Some X2, Some u, out]
      then Inl (TypeError ''Data types of input matrices must be equal.'')
      else Inr (X1, X2, u, out))"
  unfolding check_mmv_dimensions_def assms(4) Let_def
  using assms(1-3)
  by (cases out) (simp_all add: size_at_matrix ebind_Inr ebind_Inl)

lemma check_mmv_dimensions_bad_rank:
  assumes "dim X1 = 2" and "dim X2 = 2" and "dim v \<noteq> 1" and "dim v \<noteq> 2"
  shows "check_mmv_dimensions X1 X2 v out = Inl (ValueError (fstr_not_matrix ''v'' (dim v)))"
  using assms by (simp add: check_mmv_dimensions_def dim_def)

text \<open>
  C6. \<open>_check_mmv_dimensions\<close> decided in full. \<open>v'\<close> is \<open>v\<close>, reshaped to one column
  when it has rank 1. The check fails on an \<open>X1\<close> or \<open>X2\<close> that is not of rank 2, then on
  a \<open>v\<close> of rank other than 1 or 2, then on a supplied \<open>out\<close> whose shape is not
  (rows of \<open>X1\<close>, columns of \<open>v'\<close>), with a message that names that shape, then on a
  \<open>v'\<close> whose shape is not (rows of \<open>X2\<close>, columns of \<open>v'\<close>), then with a
  \<open>TypeError\<close> when the operands present do not share one dtype; otherwise it passes
  and returns \<open>v'\<close> in place of \<open>v\<close>. When it fails, \<open>mmv\<close> raises the same error in
  the state it was called in, whatever the backends are.
\<close>

theorem check_mmv_dimensions_decision:
  "(let v' = (if dim v = 1 then reshape_col v else v);
        v_ok = (dim v = 1 \<or> dim v = 2);
        out_ok = (case out of
                    None \<Rightarrow> True
                  | Some out' \<Rightarrow> shape out' = [shape X1 ! 0, shape v' ! 1]);
        shape_ok = (shape v' = [shape X2 ! 0, shape v' ! 1]);
        dtype_ok = (dtype X2 = dtype X1 \<and> dtype v = dtype X1 \<and>
                    (case out of None \<Rightarrow> True | Some out' \<Rightarrow> dtype out' = dtype X1))
    in
      (dim X1 \<noteq> 2 \<longrightarrow>
         check_mmv_dimensions X1 X2 v out = Inl (ValueError ''Matrix X1 must be 2D.''))
    \<and> (dim X1 = 2 \<and> dim X2 \<noteq> 2 \<longrightarrow>
         check_mmv_dimensions X1 X2 v out = Inl (ValueError ''Matrix X2 must be 2D.''))
    \<and> (dim X1 = 2 \<and> dim X2 = 2 \<and> \<not> v_ok \<longrightarrow>
         check_mmv_dimensions X1 X2 v out = Inl (ValueError (fstr_not_matrix ''v'' (dim v))))
    \<and> (dim v = 1 \<longrightarrow> shape v' = [shape v ! 0, 1] \<and> storage v' = storage v)
    \<and> (dim X1 = 2 \<and> dim X2 = 2 \<and> v_ok \<and> \<not> out_ok \<longrightarrow>
         check_mmv_dimensions X1 X2 v out =
           Inl (ValueError (fstr_output_dimension (shape X1 ! 0) (shape v' ! 1)
                  (case out of None \<Rightarrow> [] | Some out' \<Rightarrow> shape out'))))
    \<and> (dim X1 = 2 \<and> dim X2 = 2 \<and> v_ok \<and> out_ok \<and> \<not> shape_ok \<longrightarrow>
         check_mmv_dimensions X1 X2 v out =
           Inl (ValueError (fstr_matrix_dimensions ''v'' (shape X2 ! 0) (shape v' ! 1) (shape v'))))
    \<and> (dim X1 = 2 \<and> dim X2 = 2 \<and> v_ok \<and> out_ok \<and> shape_ok \<and> \<not> dtype_ok \<longrightarrow>
         check_mmv_dimensions X1 X2 v out =
           Inl (TypeError ''Data types of input matrices must be equal.''))
    \<and> (check_mmv_dimensions X1 X2 v out = Inr r \<longleftrightarrow>
         dim X1 = 2 \<and> dim X2 = 2 \<and> v_ok \<and> out_ok \<and> shape_ok \<and> dtype_ok \<and>
         r = (X1, X2, v', out))
    \<and> (check_mmv_dimensions X1 X2 v out = Inl e \<longrightarrow>
         mmv E self X1 X2 v out opt st = (Inl e, st)))"
proof -
  define v' where "v' = (if dim v = 1 then reshape_col v else v)"
  have v'_eq: "(if dim v = 1 then reshape_col v else v) = v'"
    by (simp add: v'_def)
  have dim_v': "dim v = 1 \<or> dim v = 2 \<Longrightarrow> dim v' = 2"
    by (auto simp: v'_def dim_reshape_col)
  have dtype_v': "dtype v' = dtype v"
    by (simp add: v'_def reshape_col_def)
  have reshaped: "dim v = 1 \<Longrightarrow> shape v' = [shape v ! 0, 1] \<and> storage v' = storage v"
    using shape_reshape_col_vector [of v] by (simp add: v'_def reshape_col_def)
  have X1_bad: "dim X1 \<noteq> 2 \<Longrightarrow>
      check_mmv_dimensions X1 X2 v out = Inl (ValueError ''Matrix X1 must be 2D.'')"
    by (simp add: check_mmv_dimensions_def)
  have X2_bad: "dim X1 = 2 \<Longrightarrow> dim X2 \<noteq> 2 \<Longrightarrow>
      check_mmv_dimensions X1 X2 v out = Inl (ValueError ''Matrix X2 must be 2D.'')"
    by (simp add: check_mmv_dimensions_def)
  note v_bad = check_mmv_dimensions_bad_rank [of X1 X2 v out]
  note good = check_mmv_dimensions_matrix [of X1 X2 v' v out, OF _ _ dim_v' v'_eq]
  have failing: "check_mmv_dimensions X1 X2 v out = Inl e \<Longrightarrow>
      mmv E self X1 X2 v out opt st = (Inl e, st)"
    by (simp add: mmv_def)
  have bad_rank_v': "\<not> (dim v = 1 \<or> dim v = 2) \<Longrightarrow> v' = v"
    by (auto simp: v'_def)
  have body: "(dim X1 \<noteq> 2 \<longrightarrow>
         check_mmv_dimensions X1 X2 v out = Inl (ValueError ''Matrix X1 must be 2D.''))
    \<and> (dim X1 = 2 \<and> dim X2 \<noteq> 2 \<longrightarrow>
         check_mmv_dimensions X1 X2 v out = Inl (ValueError ''Matrix X2 must be 2D.''))
    \<and> (dim X1 = 2 \<and> dim X2 = 2 \<and> \<not> (dim v = 1 \<or> dim v = 2) \<longrightarrow>
         check_mmv_dimensions X1 X2 v out = Inl (ValueError (fstr_not_matrix ''v'' (dim v))))
    \<and> (dim v = 1 \<longrightarrow> shape v' = [shape v ! 0, 1] \<and> storage v' = storage v)
    \<and> (dim X1 = 2 \<and> dim X2 = 2 \<and> (dim v = 1 \<or> dim v = 2) \<and>
        \<not> (case out of None \<Rightarrow> True | Some out' \<Rightarrow> shape out' = [shape X1 ! 0, shape v' ! 1]) \<longrightarrow>
         check_mmv_dimensions X1 X2 v out =
           Inl (ValueError (fstr_output_dimension (shape X1 ! 0) (shape v' ! 1)
                  (case out of None \<Rightarrow> [] | Some out' \<Rightarrow> shape out'))))
    \<and> (dim X1 = 2 \<and> dim X2 = 2 \<and> (dim v = 1 \<or> dim v = 2) \<and>
        (case out of None \<Rightarrow> True | Some out' \<Rightarrow> shape out' = [shape X1 ! 0, shape v' ! 1]) \<and>
        shape v' \<noteq> [shape X2 ! 0, shape v' ! 1] \<longrightarrow>
         check_mmv_dimensions X1 X2 v out =
           Inl (ValueError (fstr_matrix_dimensions ''v'' (shape X2 ! 0) (shape v' ! 1) (shape v'))))
    \<and> (dim X1 = 2 \<and> dim X2 = 2 \<and> (dim v = 1 \<or> dim v = 2) \<and>
        (case out of None \<Rightarrow> True | Some out' \<Rightarrow> shape out' = [shape X1 ! 0, shape v' ! 1]) \<and>
        shape v' = [shape X2 ! 0, shape v' ! 1] \<and>
        \<not> (dtype X2 = dtype X1 \<and> dtype v = dtype X1 \<and>
           (case out of None \<Rightarrow> True | Some out' \<Rightarrow> dtype out' = dtype X1)) \<longrightarrow>
         check_mmv_dimensions X1 X2 v out =
           Inl (TypeError ''Data types of input matrices must be equal.''))
    \<and> (check_mmv_dimensions X1 X2 v out = Inr r \<longleftrightarrow>
         dim X1 = 2 \<and> dim X2 = 2 \<and> (dim v = 1 \<or> dim v = 2) \<and>
         (case out of None \<Rightarrow> True | Some out' \<Rightarrow> shape out' = [shape X1 ! 0, shape v' ! 1]) \<and>
         shape v' = [shape X2 ! 0, shape v' ! 1] \<and>
         (dtype X2 = dtype X1 \<and> dtype v = dtype X1 \<and>
           (case out of None \<Rightarrow> True | Some out' \<Rightarrow> dtype out' = dtype X1)) \<and>
         r = (X1, X2, v', out))
    \<and> (check_mmv_dimensions X1 X2 v out = Inl e \<longrightarrow>
         mmv E self X1 X2 v out opt st = (Inl e, st))"
  proof (cases "dim X1 = 2")
    case X1_matrix: True
    show ?thesis
    proof (cases "dim X2 = 2")
      case X2_matrix: True
      note matrices = conjI [OF X1_matrix X2_matrix]
      show ?thesis
    proof (cases "dim v = 1 \<or> dim v = 2")
        case True
        with matrices good have eq: "check_mmv_dimensions X1 X2 v out =
         (if \<not> (case out of None \<Rightarrow> True | Some out' \<Rightarrow> shape out' = [shape X1 ! 0, shape v' ! 1])
          then Inl (ValueError (fstr_output_dimension (shape X1 ! 0) (shape v' ! 1)
                      (case out of None \<Rightarrow> [] | Some out' \<Rightarrow> shape out')))
          else if shape v' \<noteq> [shape X2 ! 0, shape v' ! 1]
          then Inl (ValueError (fstr_matrix_dimensions ''v'' (shape X2 ! 0) (shape v' ! 1) (shape v')))
          else if \<not> check_same_dtype [Some X1, Some X2, Some v', out]
          then Inl (TypeError ''Data types of input matrices must be equal.'')
          else Inr (X1, X2, v', out))"
          by blast
        show ?thesis
          using matrices True reshaped failing
          unfolding eq check_same_dtype_mmv dtype_v'
          by auto
      next
        case False
        with matrices v_bad have "check_mmv_dimensions X1 X2 v out =
            Inl (ValueError (fstr_not_matrix ''v'' (dim v)))"
          by blast
        then show ?thesis
          using matrices False failing by auto
      qed
    next
      case False
      with X1_matrix X2_bad have "check_mmv_dimensions X1 X2 v out =
          Inl (ValueError ''Matrix X2 must be 2D.'')"
        by blast
      then show ?thesis
        using X1_matrix False reshaped failing by auto
    qed
  next
    case False
    with X1_bad have "check_mmv_dimensions X1 X2 v out =
        Inl (ValueError ''Matrix X1 must be 2D.'')"
      by blast
    then show ?thesis
      using False reshaped failing by auto
  qed
  show ?thesis
    unfolding Let_def v'_eq by (rule body)
qed

theorem check_mmv_dimensions_decision_witness:
  "check_mmv_dimensions ex_X1 ex_X2 ex_v None = Inr (ex_X1, ex_X2, ex_v, None)
   \<and> check_mmv_dimensions ex_X1 ex_X2 ex_v1d None =
       Inr (ex_X1, ex_X2, ex_v1d\<lparr>shape := [80, 1]\<rparr>, None)
   \<and> check_mmv_dimensions ex_X1 ex_X2 ex_v3d None =
       Inl (ValueError ''v must be a vector or a 2D matrix. Found 3D.'')
   \<and> check_mmv_dimensions ex_X1 ex_X2 ex_v (Some ex_out_bad) =
       Inl (ValueError
         ''Output dimension is incorrect. Expected (100, 3) found torch.Size([99, 3])'')
   \<and> mmv ex_env ex_kernel ex_X1 ex_X2 ex_v (Some ex_out_bad) None ex_state =
       (Inl (ValueError
          ''Output dimension is incorrect. Expected (100, 3) found torch.Size([99, 3])''),
        ex_state)
   \<and> check_mmv_dimensions ex_X1 ex_X2 ex_w None =
       Inl (ValueError
         ''Dimensions of matrix v are incorrect: Expected (80, 3) found torch.Size([100, 3])'')
   \<and> check_mmv_dimensions ex_X1 ex_X2 ex_v_double None =
       Inl (TypeError ''Data types of input matrices must be equal.'')
   \<and> check_mmv_dimensions ex_v1d ex_X2 ex_v None = Inl (ValueError ''Matrix X1 must be 2D.'')
   \<and> check_mmv_dimensions ex_X1 ex_v3d ex_v None = Inl (ValueError ''Matrix X2 must be 2D.'')"
proof -
  have strs: "str_nat 3 = ''3''" "str_nat 80 = ''80''" "str_nat 99 = ''99''"
    "str_nat 100 = ''100''" "str_nat (Suc (Suc (Suc 0))) = ''3''"
    by (simp_all add: str_nat.simps digit_def)
  note inputs = ex_X1_def ex_X2_def ex_v_def ex_w_def ex_v1d_def ex_v3d_def ex_out_bad_def
    ex_v_double_def dense_tensor_def dim_def reshape_col_def
  note messages = fstr_not_matrix_def fstr_output_dimension_def fstr_matrix_dimensions_def
    str_shape_def strs
  note decision = check_mmv_dimensions_decision [where E = ex_env and self = ex_kernel
    and opt = None and st = ex_state]
  have scenario: "check_mmv_dimensions ex_X1 ex_X2 ex_v None = Inr (ex_X1, ex_X2, ex_v, None)"
    using decision [where ?X1.0 = ex_X1 and ?X2.0 = ex_X2 and v = ex_v and out = None
        and r = "(ex_X1, ex_X2, ex_v, None)" and e = "ValueError []"]
    by (simp add: Let_def inputs)
  have vector: "check_mmv_dimensions ex_X1 ex_X2 ex_v1d None =
      Inr (ex_X1, ex_X2, ex_v1d\<lparr>shape := [80, 1]\<rparr>, None)"
    using decision [where ?X1.0 = ex_X1 and ?X2.0 = ex_X2 and v = ex_v1d and out = None
        and r = "(ex_X1, ex_X2, ex_v1d\<lparr>shape := [80, 1]\<rparr>, None)" and e = "ValueError []"]
    by (simp add: Let_def inputs)
  have rank3: "check_mmv_dimensions ex_X1 ex_X2 ex_v3d None =
      Inl (ValueError ''v must be a vector or a 2D matrix. Found 3D.'')"
    using decision [where ?X1.0 = ex_X1 and ?X2.0 = ex_X2 and v = ex_v3d and out = None
        and r = "(ex_X1, ex_X2, ex_v, None)" and e = "ValueError []"]
    by (simp add: Let_def inputs messages)
  have out_bad: "check_mmv_dimensions ex_X1 ex_X2 ex_v (Some ex_out_bad) =
      Inl (ValueError
        ''Output dimension is incorrect. Expected (100, 3) found torch.Size([99, 3])'')
    \<and> mmv ex_env ex_kernel ex_X1 ex_X2 ex_v (Some ex_out_bad) None ex_state =
      (Inl (ValueError
         ''Output dimension is incorrect. Expected (100, 3) found torch.Size([99, 3])''),
       ex_state)"
    using decision [where ?X1.0 = ex_X1 and ?X2.0 = ex_X2 and v = ex_v
        and out = "Some ex_out_bad" and r = "(ex_X1, ex_X2, ex_v, None)"
        and e = "ValueError
         ''Output dimension is incorrect. Expected (100, 3) found torch.Size([99, 3])''"]
    by (simp add: Let_def inputs messages)
  have v_bad: "check_mmv_dimensions ex_X1 ex_X2 ex_w None =
      Inl (ValueError
        ''Dimensions of matrix v are incorrect: Expected (80, 3) found torch.Size([100, 3])'')"
    using decision [where ?X1.0 = ex_X1 and ?X2.0 = ex_X2 and v = ex_w and out = None
        and r = "(ex_X1, ex_X2, ex_v, None)" and e = "ValueError []"]
    by (simp add: Let_def inputs messages)
  have dtype_bad: "check_mmv_dimensions ex_X1 ex_X2 ex_v_double None =
      Inl (TypeError ''Data types of input matrices must be equal.'')"
    using decision [where ?X1.0 = ex_X1 and ?X2.0 = ex_X2 and v = ex_v_double and out = None
        and r = "(ex_X1, ex_X2, ex_v, None)" and e = "ValueError []"]
    by (simp add: Let_def inputs)
  have X1_bad: "check_mmv_dimensions ex_v1d ex_X2 ex_v None =
      Inl (ValueError ''Matrix X1 must be 2D.'')"
    using decision [where ?X1.0 = ex_v1d and ?X2.0 = ex_X2 and v = ex_v and out = None
        and r = "(ex_X1, ex_X2, ex_v, None)" and e = "ValueError []"]
    by (simp add: Let_def inputs)
  have X2_bad: "check_mmv_dimensions ex_X1 ex_v3d ex_v None =
      Inl (ValueError ''Matrix X2 must be 2D.'')"
    using decision [where ?X1.0 = ex_X1 and ?X2.0 = ex_v3d and v = ex_v and out = None
        and r = "(ex_X1, ex_X2, ex_v, None)" and e = "ValueError []"]
    by (simp add: Let_def inputs)
  show ?thesis
    using scenario vector rank3 out_bad v_bad dtype_bad X1_bad X2_bad by simp
qed

lemma ebind_eq_Inr: "ebind m f = Inr y \<longleftrightarrow> (\<exists>x. m = Inr x \<and> f x = Inr y)"
  by (cases m) (simp_all add: ebind_def)

lemma device_reshape_col: "device (reshape_col v) = device v"
  by (simp add: reshape_col_def)

lemma check_mm_dimensions_returns:
  "check_mm_dimensions X1 X2 out = Inr r \<Longrightarrow> r = (X1, X2, out)"
  by (auto simp: check_mm_dimensions_def ebind_eq_Inr split: if_splits)

lemma check_mmv_dimensions_returns:
  "check_mmv_dimensions X1 X2 v out = Inr (A, B, u, out') \<Longrightarrow>
     A = X1 \<and> B = X2 \<and> out' = out \<and> device u = device v"
  by (auto simp: check_mmv_dimensions_def Let_def ebind_eq_Inr device_reshape_col
        split: if_splits)

lemma check_dmmv_dimensions_returns:
  "check_dmmv_dimensions X1 X2 v w out = Inr (A, B, v', w', out') \<Longrightarrow>
     A = X1 \<and> B = X2 \<and> out' = out \<and>
     map_option device v' = map_option device v \<and>
     map_option device w' = map_option device w"
  by (cases v; cases w)
     (auto simp: check_dmmv_dimensions_def Let_def ebind_eq_Inr device_reshape_col
        split: if_splits)

lemma check_same_device_cong:
  "map (map_option device) args = map (map_option device) args' \<Longrightarrow>
     check_same_device args = check_same_device args'"
proof -
  have "map device (present xs) = present (map (map_option device) xs)" for xs :: "tensor option list"
    by (induction xs rule: present.induct) simp_all
  then show "map (map_option device) args = map (map_option device) args' \<Longrightarrow>
     check_same_device args = check_same_device args'"
    by (simp add: check_same_device_def)
qed

lemma check_device_properties_cong:
  "map (map_option device) args = map (map_option device) args' \<Longrightarrow>
     check_device_properties args fn_name opt = check_device_properties args' fn_name opt"
  by (simp add: check_device_properties_def check_same_device_cong [of args args'])

lemma mixed_sparsity:
  "check_sparse E [X1, X2] = [s1, s2] \<Longrightarrow> s1 \<noteq> s2 \<Longrightarrow>
     \<not> list_all id (check_sparse E [X1, X2]) \<and> list_ex id (check_sparse E [X1, X2])"
  by auto

lemma decide_impl_mixed_sparsity:
  assumes "check_sparse E [X1, X2] = [s1, s2]" and "s1 \<noteq> s2"
  shows "decide_mm_impl E X1 X2 opt st = (Inl sparsity_error, st)"
    and "decide_mmv_impl E X1 X2 v opt st = (Inl sparsity_error, st)"
    and "decide_dmmv_impl E X1 X2 v' w opt st = (Inl sparsity_error, st)"
  using mixed_sparsity [OF assms]
  by (simp_all add: decide_mm_impl_def decide_mmv_impl_def decide_dmmv_impl_def Let_def)

text \<open>
  C5, as the code has it. A public operation whose \<open>X1\<close> and \<open>X2\<close> differ in sparsity
  always fails, and the resolver's sparsity error is the last in line: the operation
  raises the error of its dimension and dtype validation if that fails, else the
  same-device error if that check fails, else "Either all or none of 'X1', 'X2' must be
  sparse."
\<close>

theorem mixed_sparsity_fails_after_validation:
  assumes "check_sparse E [X1, X2] = [s1, s2]" and "s1 \<noteq> s2"
  shows "fst (call E self X1 X2 out opt st) =
       (case check_mm_dimensions X1 X2 out of
          Inl e \<Rightarrow> Inl e
        | Inr _ \<Rightarrow>
            (case check_device_properties [Some X1, Some X2, out] ''kernel'' opt of
               Inl e \<Rightarrow> Inl e
             | Inr _ \<Rightarrow> Inl sparsity_error))
   \<and> fst (mmv E self X1 X2 v out opt st) =
       (case check_mmv_dimensions X1 X2 v out of
          Inl e \<Rightarrow> Inl e
        | Inr _ \<Rightarrow>
            (case check_device_properties [Some X1, Some X2, Some v, out] ''mmv'' opt of
               Inl e \<Rightarrow> Inl e
             | Inr _ \<Rightarrow> Inl sparsity_error))
   \<and> fst (dmmv E self X1 X2 v' w out opt st) =
       (case check_dmmv_dimensions X1 X2 v' w out of
          Inl e \<Rightarrow> Inl e
        | Inr _ \<Rightarrow>
            (case check_device_properties [Some X1, Some X2, v', w, out] ''dmmv'' opt of
               Inl e \<Rightarrow> Inl e
             | Inr _ \<Rightarrow> Inl sparsity_error))"
    (is "?product \<and> ?vector_product \<and> ?double_product")
proof -
  note resolver = decide_impl_mixed_sparsity [OF assms]
  have ?product
  proof (cases "check_mm_dimensions X1 X2 out")
    case (Inl e)
    then show ?thesis by (simp add: call_def)
  next
    case (Inr r)
    with check_mm_dimensions_returns have "r = (X1, X2, out)" by blast
    with Inr show ?thesis
      by (simp add: call_def resolver split_beta Let_def split: sum.splits option.splits)
  qed
  moreover have ?vector_product
  proof (cases "check_mmv_dimensions X1 X2 v out")
    case (Inl e)
    then show ?thesis by (simp add: mmv_def)
  next
    case (Inr r)
    obtain A B u out' where r: "r = (A, B, u, out')" by (cases r) auto
    with Inr check_mmv_dimensions_returns [of X1 X2 v out A B u out']
    have same: "A = X1" "B = X2" "out' = out" "device u = device v" by auto
    have "check_device_properties [Some X1, Some X2, Some u, out] ''mmv'' opt =
          check_device_properties [Some X1, Some X2, Some v, out] ''mmv'' opt"
      by (rule check_device_properties_cong) (simp add: same)
    with Inr r same show ?thesis
      by (simp add: mmv_def resolver split_beta Let_def split: sum.splits option.splits)
  qed
  moreover have ?double_product
  proof (cases "check_dmmv_dimensions X1 X2 v' w out")
    case (Inl e)
    then show ?thesis by (simp add: dmmv_def)
  next
    case (Inr r)
    obtain A B u z out' where r: "r = (A, B, u, z, out')" by (cases r) auto
    with Inr check_dmmv_dimensions_returns [of X1 X2 v' w out A B u z out']
    have same: "A = X1" "B = X2" "out' = out" "map_option device u = map_option device v'"
      "map_option device z = map_option device w" by auto
    have "check_device_properties [Some X1, Some X2, u, z, out] ''dmmv'' opt =
          check_device_properties [Some X1, Some X2, v', w, out] ''dmmv'' opt"
      by (rule check_device_properties_cong) (simp add: same)
    with Inr r same show ?thesis
      by (simp add: dmmv_def resolver split_beta Let_def split: sum.splits option.splits)
  qed
  ultimately show ?thesis by blast
qed

theorem mixed_sparsity_fails_after_validation_witness:
  "check_sparse ex_env [ex_X1_sparse, ex_X2] = [True, False] \<and> True \<noteq> False
   \<and> fst (call ex_env ex_kernel ex_X1_sparse ex_X2 None None ex_state) = Inl sparsity_error
   \<and> fst (mmv ex_env ex_kernel ex_X1_sparse ex_X2 ex_v None None ex_state) = Inl sparsity_error
   \<and> fst (dmmv ex_env ex_kernel ex_X1_sparse ex_X2 (Some ex_v) (Some ex_w) None None ex_state) =
       Inl sparsity_error
   \<and> fst (mmv ex_env ex_kernel ex_X1_sparse ex_X2 ex_v3d None None ex_state) =
       Inl (ValueError ''v must be a vector or a 2D matrix. Found 3D.'')
   \<and> fst (mmv ex_env ex_kernel ex_X1_sparse ex_X2_cuda ex_v None None ex_state) =
       Inl (RuntimeError ''All input arguments to mmv must be on the same device'')"
proof -
  have mixed: "check_sparse ex_env [ex_X1_sparse, ex_X2] = [True, False]"
    "check_sparse ex_env [ex_X1_sparse, ex_X2_cuda] = [True, False]"
    by (simp_all add: ex_env_def ex_X1_sparse_def ex_X2_def ex_X2_cuda_def sparse_tensor_def
          dense_tensor_def)
  have strs: "str_nat (Suc (Suc (Suc 0))) = ''3''"
    by (simp add: str_nat.simps digit_def)
  note inputs = ex_X1_sparse_def ex_X2_def ex_X2_cuda_def ex_v_def ex_w_def ex_v3d_def
    sparse_tensor_def dense_tensor_def cpu_def cuda0_def
  note checks = check_mm_dimensions_def check_mmv_dimensions_def check_dmmv_dimensions_def
    check_device_properties_def check_same_device_def check_same_dtype_def dim_def size_at_def
    ebind_def fstr_not_matrix_def Let_def
  show ?thesis
    using mixed(1)
      mixed_sparsity_fails_after_validation [OF mixed(1), of ex_kernel None None ex_state ex_v
        "Some ex_v" "Some ex_w"]
      mixed_sparsity_fails_after_validation [OF mixed(1), of ex_kernel None None ex_state ex_v3d
        "Some ex_v" "Some ex_w"]
      mixed_sparsity_fails_after_validation [OF mixed(2), of ex_kernel None None ex_state ex_v
        "Some ex_v" "Some ex_w"]
    by (simp add: inputs checks strs)
qed

text \<open>
  C5, as the claim has it (the sparsity error whatever the other arguments), fails: with
  a sparse \<open>X1\<close>, a dense \<open>X2\<close> and a \<open>v\<close> of rank 3, \<open>mmv\<close> raises the shape error of
  \<open>v\<close>, since the validator runs before the resolver.
\<close>

theorem mixed_sparsity_fails_after_validation_counterexample:
  "check_sparse ex_env [ex_X1_sparse, ex_X2] = [True, False]
   \<and> fst (mmv ex_env ex_kernel ex_X1_sparse ex_X2 ex_v3d None None ex_state) =
       Inl (ValueError ''v must be a vector or a 2D matrix. Found 3D.'')
   \<and> fst (mmv ex_env ex_kernel ex_X1_sparse ex_X2 ex_v3d None None ex_state) \<noteq>
       Inl sparsity_error"
proof -
  have strs: "str_nat (Suc (Suc (Suc 0))) = ''3''"
    by (simp add: str_nat.simps digit_def)
  show ?thesis
    by (simp add: mmv_def check_mmv_dimensions_def dim_def fstr_not_matrix_def strs
          sparsity_error_def ex_env_def ex_X1_sparse_def ex_X2_def ex_v3d_def sparse_tensor_def
          dense_tensor_def)
qed

text \<open>
  C7, as the code has it. A resolver first raises the sparsity error if \<open>X1\<close> and \<open>X2\<close>
  differ in sparsity, with no warning. Its callers, the three public operations, have
  passed \<open>X1\<close> and \<open>X2\<close> through the same-device check, which leaves them on one device.
  On such operands of one sparsity \<open>s\<close>: if any of the two is on a GPU while
  \<open>decide_cuda(opt)\<close> is false, the resolver emits its warning and goes on with the CUDA
  backends; if \<open>decide_cuda(opt)\<close> is true, or neither operand is on a GPU, it emits
  nothing. The backend returned is the one for \<open>use_cuda\<close> and \<open>s\<close>; a CUDA backend is
  returned once its deferred import has succeeded, and the import's error is raised
  otherwise.
\<close>

theorem resolver_override:
  "(check_sparse E [X1, X2] = [s1, s2] \<and> s1 \<noteq> s2 \<longrightarrow>
      decide_mm_impl E X1 X2 opt st = (Inl sparsity_error, st) \<and>
      decide_mmv_impl E X1 X2 v opt st = (Inl sparsity_error, st) \<and>
      decide_dmmv_impl E X1 X2 v' w opt st = (Inl sparsity_error, st))
   \<and> (check_device_properties (Some X1 # Some X2 # others) fn_name per_call = Inr () \<longrightarrow>
        device X2 = device X1)
   \<and> (check_sparse E [X1, X2] = [s, s] \<and> device X2 = device X1 \<longrightarrow>
        ((dev_type (device X1) = ''cuda'' \<or> dev_type (device X2) = ''cuda'') \<and>
         \<not> decide_cuda E opt \<longrightarrow>
           decide_mm_impl E X1 X2 opt st =
             (case import_fmm_cuda E of
                Some e \<Rightarrow> Inl e
              | None \<Rightarrow> Inr (if s then fmm_cuda_sparse else fmm_cuda),
              warn mm_warning st) \<and>
           decide_mmv_impl E X1 X2 v opt st =
             (case import_fmmv_cuda E of
                Some e \<Rightarrow> Inl e
              | None \<Rightarrow> Inr (if s then fmmv_cuda_sparse else fmmv_cuda),
              warn mmv_warning st) \<and>
           decide_dmmv_impl E X1 X2 v' w opt st =
             (case import_fmmv_cuda E of
                Some e \<Rightarrow> Inl e
              | None \<Rightarrow> Inr (if s then fdmmv_cuda_sparse else fdmmv_cuda),
              warn dmmv_warning st))
        \<and> (decide_cuda E opt \<longrightarrow>
           decide_mm_impl E X1 X2 opt st =
             (case import_fmm_cuda E of
                Some e \<Rightarrow> Inl e
              | None \<Rightarrow> Inr (if s then fmm_cuda_sparse else fmm_cuda),
              st) \<and>
           decide_mmv_impl E X1 X2 v opt st =
             (case import_fmmv_cuda E of
                Some e \<Rightarrow> Inl e
              | None \<Rightarrow> Inr (if s then fmmv_cuda_sparse else fmmv_cuda),
              st) \<and>
           decide_dmmv_impl E X1 X2 v' w opt st =
             (case import_fmmv_cuda E of
                Some e \<Rightarrow> Inl e
              | None \<Rightarrow> Inr (if s then fdmmv_cuda_sparse else fdmmv_cuda),
              st))
        \<and> (\<not> (dev_type (device X1) = ''cuda'' \<or> dev_type (device X2) = ''cuda'') \<and>
           \<not> decide_cuda E opt \<longrightarrow>
           decide_mm_impl E X1 X2 opt st = (Inr (if s then fmm_cpu_sparse else fmm_cpu), st) \<and>
           decide_mmv_impl E X1 X2 v opt st =
             (Inr (if s then fmmv_cpu_sparse else fmmv_cpu), st) \<and>
           decide_dmmv_impl E X1 X2 v' w opt st =
             (Inr (if s then fdmmv_cpu_sparse else fdmmv_cpu), st)))"
proof (intro conjI impI)
  assume "check_sparse E [X1, X2] = [s1, s2] \<and> s1 \<noteq> s2"
  then have mixed: "check_sparse E [X1, X2] = [s1, s2]" "s1 \<noteq> s2"
    by simp_all
  show "decide_mm_impl E X1 X2 opt st = (Inl sparsity_error, st)"
    and "decide_mmv_impl E X1 X2 v opt st = (Inl sparsity_error, st)"
    and "decide_dmmv_impl E X1 X2 v' w opt st = (Inl sparsity_error, st)"
    by (rule decide_impl_mixed_sparsity [OF mixed])+
next
  assume "check_device_properties (Some X1 # Some X2 # others) fn_name per_call = Inr ()"
  then show "device X2 = device X1"
    by (simp add: check_device_properties_def check_same_device_def split: if_splits)
next
  assume agree: "check_sparse E [X1, X2] = [s, s] \<and> device X2 = device X1"
  {
    assume "(dev_type (device X1) = ''cuda'' \<or> dev_type (device X2) = ''cuda'') \<and>
      \<not> decide_cuda E opt"
    with agree have override: "dev_type (device X1) = ''cuda''" "\<not> decide_cuda E opt"
      "check_sparse E [X1, X2] = [s, s]"
      by auto
    show "decide_mm_impl E X1 X2 opt st =
             (case import_fmm_cuda E of
                Some e \<Rightarrow> Inl e
              | None \<Rightarrow> Inr (if s then fmm_cuda_sparse else fmm_cuda),
              warn mm_warning st)"
      and "decide_mmv_impl E X1 X2 v opt st =
             (case import_fmmv_cuda E of
                Some e \<Rightarrow> Inl e
              | None \<Rightarrow> Inr (if s then fmmv_cuda_sparse else fmmv_cuda),
              warn mmv_warning st)"
      and "decide_dmmv_impl E X1 X2 v' w opt st =
             (case import_fmmv_cuda E of
                Some e \<Rightarrow> Inl e
              | None \<Rightarrow> Inr (if s then fdmmv_cuda_sparse else fdmmv_cuda),
              warn dmmv_warning st)"
      by (simp_all add: decide_mm_impl_def decide_mmv_impl_def decide_dmmv_impl_def Let_def
            override split: option.splits)
  next
    assume preferred: "decide_cuda E opt"
    from agree have same: "check_sparse E [X1, X2] = [s, s]"
      by simp
    show "decide_mm_impl E X1 X2 opt st =
             (case import_fmm_cuda E of
                Some e \<Rightarrow> Inl e
              | None \<Rightarrow> Inr (if s then fmm_cuda_sparse else fmm_cuda),
              st)"
      and "decide_mmv_impl E X1 X2 v opt st =
             (case import_fmmv_cuda E of
                Some e \<Rightarrow> Inl e
              | None \<Rightarrow> Inr (if s then fmmv_cuda_sparse else fmmv_cuda),
              st)"
      and "decide_dmmv_impl E X1 X2 v' w opt st =
             (case import_fmmv_cuda E of
                Some e \<Rightarrow> Inl e
              | None \<Rightarrow> Inr (if s then fdmmv_cuda_sparse else fdmmv_cuda),
              st)"
      by (simp_all add: decide_mm_impl_def decide_mmv_impl_def decide_dmmv_impl_def Let_def
            preferred same split: option.splits)
  next
    assume "\<not> (dev_type (device X1) = ''cuda'' \<or> dev_type (device X2) = ''cuda'') \<and>
      \<not> decide_cuda E opt"
    with agree have on_cpu: "dev_type (device X1) \<noteq> ''cuda''" "\<not> decide_cuda E opt"
      "check_sparse E [X1, X2] = [s, s]"
      by auto
    show "decide_mm_impl E X1 X2 opt st = (Inr (if s then fmm_cpu_sparse else fmm_cpu), st)"
      and "decide_mmv_impl E X1 X2 v opt st =
             (Inr (if s then fmmv_cpu_sparse else fmmv_cpu), st)"
      and "decide_dmmv_impl E X1 X2 v' w opt st =
             (Inr (if s then fdmmv_cpu_sparse else fdmmv_cpu), st)"
      by (simp_all add: decide_mm_impl_def decide_mmv_impl_def decide_dmmv_impl_def Let_def
            on_cpu)
  }
qed

theorem resolver_override_witness:
  "check_sparse ex_env [ex_X1_sparse_cuda, ex_X2_cuda] = [True, False] \<and> True \<noteq> False
   \<and> decide_mmv_impl ex_env ex_X1_sparse_cuda ex_X2_cuda ex_v_cuda ex_cpu_only ex_state =
       (Inl sparsity_error, ex_state)
   \<and> check_device_properties [Some ex_X1_cuda, Some ex_X2_cuda, Some ex_v_cuda, None] ''mmv'' None =
       Inr ()
   \<and> device ex_X2_cuda = device ex_X1_cuda
   \<and> check_sparse ex_env [ex_X1_cuda, ex_X2_cuda] = [False, False]
   \<and> dev_type (device ex_X2_cuda) = ''cuda'' \<and> \<not> decide_cuda ex_env ex_cpu_only
   \<and> decide_mm_impl ex_env ex_X1_cuda ex_X2_cuda ex_cpu_only ex_state =
       (Inr fmm_cuda, warn mm_warning ex_state)
   \<and> decide_mmv_impl ex_env ex_X1_cuda ex_X2_cuda ex_v_cuda ex_cpu_only ex_state =
       (Inr fmmv_cuda, warn mmv_warning ex_state)
   \<and> decide_dmmv_impl ex_env ex_X1_cuda ex_X2_cuda (Some ex_v_cuda) None ex_cpu_only ex_state =
       (Inr fdmmv_cuda, warn dmmv_warning ex_state)
   \<and> decide_cuda ex_env ex_auto
   \<and> decide_mmv_impl ex_env ex_X1_cuda ex_X2_cuda ex_v_cuda ex_auto ex_state =
       (Inr fmmv_cuda, ex_state)
   \<and> check_sparse ex_env [ex_X1, ex_X2] = [False, False] \<and> device ex_X2 = device ex_X1
   \<and> dev_type (device ex_X1) \<noteq> ''cuda'' \<and> dev_type (device ex_X2) \<noteq> ''cuda''
   \<and> decide_mm_impl ex_env ex_X1 ex_X2 ex_cpu_only ex_state = (Inr fmm_cpu, ex_state)
   \<and> decide_mmv_impl ex_env ex_X1 ex_X2 ex_v ex_cpu_only ex_state = (Inr fmmv_cpu, ex_state)
   \<and> decide_dmmv_impl ex_env ex_X1 ex_X2 (Some ex_v) None ex_cpu_only ex_state =
       (Inr fdmmv_cpu, ex_state)"
proof -
  have mixed: "check_sparse ex_env [ex_X1_sparse_cuda, ex_X2_cuda] = [True, False]"
    and on_gpu: "check_sparse ex_env [ex_X1_cuda, ex_X2_cuda] = [False, False]"
    and on_cpu: "check_sparse ex_env [ex_X1, ex_X2] = [False, False]"
    by (simp_all add: ex_env_def ex_X1_sparse_cuda_def ex_X1_cuda_def ex_X2_cuda_def ex_X1_def
          ex_X2_def dense_tensor_def sparse_tensor_def)
  have checked: "check_device_properties
      [Some ex_X1_cuda, Some ex_X2_cuda, Some ex_v_cuda, None] ''mmv'' None = Inr ()"
    by (simp add: check_device_properties_def check_same_device_def ex_X1_cuda_def
          ex_X2_cuda_def ex_v_cuda_def dense_tensor_def)
  show ?thesis
    using mixed on_gpu on_cpu checked
      resolver_override [of ex_env ex_X1_sparse_cuda ex_X2_cuda True False ex_cpu_only ex_state
        ex_v_cuda "Some ex_v_cuda" None "[Some ex_v_cuda, None]" "''mmv''" None False]
      resolver_override [of ex_env ex_X1_cuda ex_X2_cuda False False ex_cpu_only ex_state
        ex_v_cuda "Some ex_v_cuda" None "[Some ex_v_cuda, None]" "''mmv''" None False]
      resolver_override [of ex_env ex_X1_cuda ex_X2_cuda False False ex_auto ex_state
        ex_v_cuda "Some ex_v_cuda" None "[Some ex_v_cuda, None]" "''mmv''" None False]
      resolver_override [of ex_env ex_X1 ex_X2 False False ex_cpu_only ex_state
        ex_v "Some ex_v" None "[Some ex_v, None]" "''mmv''" None False]
    by (simp add: ex_env_def ex_cpu_only_def ex_auto_def ex_X1_cuda_def ex_X2_cuda_def ex_X1_def
          ex_X2_def dense_tensor_def cuda0_def cpu_def)
qed

text \<open>
  C7, as the claim has it (a GPU operand under a CPU preference always gives the override,
  the warning and a backend), fails on calls of the public \<open>mmv\<close> whose operands are all
  on one GPU, with the kernel's CPU-only options. (1) \<open>X1\<close> sparse and \<open>X2\<close> dense: the
  validator and the device check pass, and the resolver raises the sparsity error with no
  warning emitted. (2) Dense operands, CUDA backends not importable: the resolver emits the
  warning, and then the import's error ends the call.
\<close>

theorem resolver_override_counterexample:
  "dev_type (device ex_X1_sparse_cuda) = ''cuda'' \<and> dev_type (device ex_X2_cuda) = ''cuda''
   \<and> \<not> decide_cuda ex_env (options ex_state (params ex_kernel))
   \<and> mmv ex_env ex_kernel ex_X1_sparse_cuda ex_X2_cuda ex_v_cuda None None ex_state =
       (Inl sparsity_error, ex_state)
   \<and> warnings ex_state = []
   \<and> decide_mmv_impl ex_env ex_X1_sparse_cuda ex_X2_cuda ex_v_cuda ex_cpu_only ex_state =
       (Inl sparsity_error, ex_state)
   \<and> dev_type (device ex_X1_cuda) = ''cuda''
   \<and> \<not> decide_cuda ex_env_no_cuda (options ex_state (params ex_kernel))
   \<and> mmv ex_env_no_cuda ex_kernel ex_X1_cuda ex_X2_cuda ex_v_cuda None None ex_state =
       (Inl (ModuleNotFoundError ''No module named falkon.mmv_ops.fmmv_cuda''),
        warn mmv_warning ex_state)
   \<and> decide_mmv_impl ex_env_no_cuda ex_X1_cuda ex_X2_cuda ex_v_cuda ex_cpu_only ex_state =
       (Inl (ModuleNotFoundError ''No module named falkon.mmv_ops.fmmv_cuda''),
        warn mmv_warning ex_state)"
proof -
  note inputs = ex_X1_sparse_cuda_def ex_X1_cuda_def ex_X2_cuda_def ex_v_cuda_def
    dense_tensor_def sparse_tensor_def cuda0_def
  have validated:
    "check_mmv_dimensions ex_X1_sparse_cuda ex_X2_cuda ex_v_cuda None =
       Inr (ex_X1_sparse_cuda, ex_X2_cuda, ex_v_cuda, None)"
    "check_mmv_dimensions ex_X1_cuda ex_X2_cuda ex_v_cuda None =
       Inr (ex_X1_cuda, ex_X2_cuda, ex_v_cuda, None)"
    by (simp_all add: check_mmv_dimensions_def dim_def size_at_def ebind_def
          check_same_dtype_def inputs)
  have same_device:
    "check_device_properties
       [Some ex_X1_sparse_cuda, Some ex_X2_cuda, Some ex_v_cuda, None] ''mmv'' None = Inr ()"
    "check_device_properties
       [Some ex_X1_cuda, Some ex_X2_cuda, Some ex_v_cuda, None] ''mmv'' None = Inr ()"
    by (simp_all add: check_device_properties_def check_same_device_def inputs)
  have resolved:
    "decide_mmv_impl ex_env ex_X1_sparse_cuda ex_X2_cuda ex_v_cuda ex_cpu_only ex_state =
       (Inl sparsity_error, ex_state)"
    "decide_mmv_impl ex_env_no_cuda ex_X1_cuda ex_X2_cuda ex_v_cuda ex_cpu_only ex_state =
       (Inl (ModuleNotFoundError ''No module named falkon.mmv_ops.fmmv_cuda''),
        warn mmv_warning ex_state)"
    by (simp_all add: decide_mmv_impl_def Let_def ex_env_no_cuda_def ex_env_def ex_cpu_only_def
          inputs)
  have stored: "options ex_state (params ex_kernel) = ex_cpu_only"
    by (simp add: ex_state_def ex_kernel_def)
  show ?thesis
    by (simp add: mmv_def validated same_device resolved stored)
       (simp add: inputs ex_env_no_cuda_def ex_env_def ex_cpu_only_def ex_state_def)
qed

lemma options_warn: "options (warn msg st) = options st"
  by (simp add: warn_def)

lemma resolvers_keep_options:
  "options (snd (decide_mm_impl E X1 X2 opt st)) = options st"
  "options (snd (decide_mmv_impl E X1 X2 v opt st)) = options st"
  "options (snd (decide_dmmv_impl E X1 X2 v' w opt st)) = options st"
  by (simp_all add: decide_mm_impl_def decide_mmv_impl_def decide_dmmv_impl_def Let_def
        options_warn split: option.splits)

lemma replace_every_field:
  "r\<lparr>use_cpu := use_cpu c, keops_active := keops_active c, other_options := other_options c\<rparr> =
     (c :: 'z FalkonOptions)"
  by (cases r, cases c) simp

lemma dataclasses_replace_new:
  "dataclasses_replace obj changes st =
     (next_id st,
      st\<lparr>options := (options st)(next_id st := changes), next_id := Suc (next_id st)\<rparr>)"
  by (simp add: dataclasses_replace_def Let_def replace_every_field)

lemma call_unfold:
  "call E self X1 X2 out (Some opt) st =
     (case check_mm_dimensions X1 X2 out of
        Inl e \<Rightarrow> (Inl e, st)
      | Inr (A, B, out') \<Rightarrow>
          (case check_device_properties [Some A, Some B, out'] ''kernel'' (Some opt) of
             Inl e \<Rightarrow> (Inl e, st)
           | Inr _ \<Rightarrow>
               (case decide_mm_impl E A B (options st opt)
                       (st\<lparr>options := (options st)(next_id st := options st opt),
                           next_id := Suc (next_id st)\<rparr>) of
                  (Inl e, s) \<Rightarrow> (Inl e, s)
                | (Inr impl, s) \<Rightarrow> call_mm E impl A B self out' (next_id st) s)))"
  by (simp add: call_def dataclasses_replace_new dataclasses_asdict_def
        split: sum.splits prod.splits)

lemma mmv_unfold:
  "mmv E self X1 X2 v out (Some opt) st =
     (case check_mmv_dimensions X1 X2 v out of
        Inl e \<Rightarrow> (Inl e, st)
      | Inr (A, B, u, out') \<Rightarrow>
          (case check_device_properties [Some A, Some B, Some u, out'] ''mmv'' (Some opt) of
             Inl e \<Rightarrow> (Inl e, st)
           | Inr _ \<Rightarrow>
               (case decide_mmv_impl E A B u (options st opt)
                       (st\<lparr>options := (options st)(next_id st := options st opt),
                           next_id := Suc (next_id st)\<rparr>) of
                  (Inl e, s) \<Rightarrow> (Inl e, s)
                | (Inr impl, s) \<Rightarrow> call_mmv E impl A B u self out' (next_id st) s)))"
  by (simp add: mmv_def dataclasses_replace_new dataclasses_asdict_def
        split: sum.splits prod.splits)

lemma dmmv_unfold:
  "dmmv E self X1 X2 v' w out (Some opt) st =
     (case check_dmmv_dimensions X1 X2 v' w out of
        Inl e \<Rightarrow> (Inl e, st)
      | Inr (A, B, u, z, out') \<Rightarrow>
          (case check_device_properties [Some A, Some B, u, z, out'] ''dmmv'' (Some opt) of
             Inl e \<Rightarrow> (Inl e, st)
           | Inr _ \<Rightarrow>
               (case decide_dmmv_impl E A B u z (options st opt)
                       (st\<lparr>options := (options st)(next_id st := options st opt),
                           next_id := Suc (next_id st)\<rparr>) of
                  (Inl e, s) \<Rightarrow> (Inl e, s)
                | (Inr impl, s) \<Rightarrow> call_dmmv E impl A B u z self out' (next_id st) s)))"
  by (simp add: dmmv_def dataclasses_replace_new dataclasses_asdict_def
        split: sum.splits prod.splits)
lemma dispatch_keeps_options:
  assumes "\<And>impl s. options (snd (run impl s)) = options s"
    and "options (snd resolved) = options st1"
  shows "options (snd (case resolved of
                         (Inl e, s) \<Rightarrow> (Inl e, s)
                       | (Inr impl, s) \<Rightarrow> run impl s)) = options st1"
  using assms by (cases resolved; cases "fst resolved") auto

lemma call_keeps_options:
  assumes "\<And>impl A B k out' p s. options (snd (call_mm E impl A B k out' p s)) = options s"
    and "a < next_id st"
  shows "options (snd (call E self X1 X2 out (Some opt) st)) a = options st a"
proof (cases "check_mm_dimensions X1 X2 out")
  case (Inl e)
  then show ?thesis by (simp add: call_unfold)
next
  case (Inr r)
  obtain A B out' where r: "r = (A, B, out')" by (cases r) auto
  show ?thesis
  proof (cases "check_device_properties [Some A, Some B, out'] ''kernel'' (Some opt)")
    case (Inl e)
    with Inr r show ?thesis by (simp add: call_unfold)
  next
    case same_device: (Inr u)
    have "options (snd (case decide_mm_impl E A B (options st opt)
                               (st\<lparr>options := (options st)(next_id st := options st opt),
                                   next_id := Suc (next_id st)\<rparr>) of
                          (Inl e, s) \<Rightarrow> (Inl e, s)
                        | (Inr impl, s) \<Rightarrow> call_mm E impl A B self out' (next_id st) s)) =
          options (st\<lparr>options := (options st)(next_id st := options st opt),
                      next_id := Suc (next_id st)\<rparr>)"
      by (rule dispatch_keeps_options) (simp_all add: assms(1) resolvers_keep_options)
    with Inr r same_device assms(2) show ?thesis by (simp add: call_unfold)
  qed
qed

lemma mmv_keeps_options:
  assumes "\<And>impl A B u k out' p s. options (snd (call_mmv E impl A B u k out' p s)) = options s"
    and "a < next_id st"
  shows "options (snd (mmv E self X1 X2 v out (Some opt) st)) a = options st a"
proof (cases "check_mmv_dimensions X1 X2 v out")
  case (Inl e)
  then show ?thesis by (simp add: mmv_unfold)
next
  case (Inr r)
  obtain A B u out' where r: "r = (A, B, u, out')" by (cases r) auto
  show ?thesis
  proof (cases "check_device_properties [Some A, Some B, Some u, out'] ''mmv'' (Some opt)")
    case (Inl e)
    with Inr r show ?thesis by (simp add: mmv_unfold)
  next
    case same_device: (Inr x)
    have "options (snd (case decide_mmv_impl E A B u (options st opt)
                               (st\<lparr>options := (options st)(next_id st := options st opt),
                                   next_id := Suc (next_id st)\<rparr>) of
                          (Inl e, s) \<Rightarrow> (Inl e, s)
                        | (Inr impl, s) \<Rightarrow> call_mmv E impl A B u self out' (next_id st) s)) =
          options (st\<lparr>options := (options st)(next_id st := options st opt),
                      next_id := Suc (next_id st)\<rparr>)"
      by (rule dispatch_keeps_options) (simp_all add: assms(1) resolvers_keep_options)
    with Inr r same_device assms(2) show ?thesis by (simp add: mmv_unfold)
  qed
qed

lemma dmmv_keeps_options:
  assumes "\<And>impl A B u z k out' p s.
      options (snd (call_dmmv E impl A B u z k out' p s)) = options s"
    and "a < next_id st"
  shows "options (snd (dmmv E self X1 X2 v' w out (Some opt) st)) a = options st a"
proof (cases "check_dmmv_dimensions X1 X2 v' w out")
  case (Inl e)
  then show ?thesis by (simp add: dmmv_unfold)
next
  case (Inr r)
  obtain A B u z out' where r: "r = (A, B, u, z, out')" by (cases r) auto
  show ?thesis
  proof (cases "check_device_properties [Some A, Some B, u, z, out'] ''dmmv'' (Some opt)")
    case (Inl e)
    with Inr r show ?thesis by (simp add: dmmv_unfold)
  next
    case same_device: (Inr x)
    have "options (snd (case decide_dmmv_impl E A B u z (options st opt)
                               (st\<lparr>options := (options st)(next_id st := options st opt),
                                   next_id := Suc (next_id st)\<rparr>) of
                          (Inl e, s) \<Rightarrow> (Inl e, s)
                        | (Inr impl, s) \<Rightarrow> call_dmmv E impl A B u z self out' (next_id st) s)) =
          options (st\<lparr>options := (options st)(next_id st := options st opt),
                      next_id := Suc (next_id st)\<rparr>)"
      by (rule dispatch_keeps_options) (simp_all add: assms(1) resolvers_keep_options)
    with Inr r same_device assms(2) show ?thesis by (simp add: dmmv_unfold)
  qed
qed

text \<open>
  C9. A public operation called with a per-call \<open>opt\<close> leaves the kernel's own options
  object (\<open>params self\<close>) and the caller's (\<open>opt\<close>) as they were, whether it returns
  or raises, provided the backend it ends in does not write options objects.
  \<open>dataclasses.replace\<close> puts the merged record at an address that was unused, so it is
  neither of the two; its fields are those of the kernel's record replaced by the fields
  of \<open>opt\<close> (every field, since \<open>asdict\<close> lists them all); the resolver and the backend
  are given this new record.
\<close>

theorem per_call_options_merge:
  assumes "\<And>impl A B k out' p s. options (snd (call_mm E impl A B k out' p s)) = options s"
    and "\<And>impl A B u k out' p s. options (snd (call_mmv E impl A B u k out' p s)) = options s"
    and "\<And>impl A B u z k out' p s.
      options (snd (call_dmmv E impl A B u z k out' p s)) = options s"
    and "params self < next_id st" and "opt < next_id st"
    and "dataclasses_replace (params self) (dataclasses_asdict opt st) st = (new, st1)"
  shows
    "options (snd (call E self X1 X2 out (Some opt) st)) (params self) = options st (params self)
     \<and> options (snd (call E self X1 X2 out (Some opt) st)) opt = options st opt
     \<and> options (snd (mmv E self X1 X2 v out (Some opt) st)) (params self) =
         options st (params self)
     \<and> options (snd (mmv E self X1 X2 v out (Some opt) st)) opt = options st opt
     \<and> options (snd (dmmv E self X1 X2 v' w out (Some opt) st)) (params self) =
         options st (params self)
     \<and> options (snd (dmmv E self X1 X2 v' w out (Some opt) st)) opt = options st opt
     \<and> new = next_id st \<and> new \<noteq> params self \<and> new \<noteq> opt
     \<and> options st1 new =
         (options st (params self))\<lparr>use_cpu := use_cpu (options st opt),
                                     keops_active := keops_active (options st opt),
                                     other_options := other_options (options st opt)\<rparr>
     \<and> options st1 (params self) = options st (params self)
     \<and> options st1 opt = options st opt
     \<and> call E self X1 X2 out (Some opt) st =
         (case check_mm_dimensions X1 X2 out of
            Inl e \<Rightarrow> (Inl e, st)
          | Inr (A, B, out') \<Rightarrow>
              (case check_device_properties [Some A, Some B, out'] ''kernel'' (Some opt) of
                 Inl e \<Rightarrow> (Inl e, st)
               | Inr _ \<Rightarrow>
                   (case decide_mm_impl E A B (options st1 new) st1 of
                      (Inl e, s) \<Rightarrow> (Inl e, s)
                    | (Inr impl, s) \<Rightarrow> call_mm E impl A B self out' new s)))
     \<and> mmv E self X1 X2 v out (Some opt) st =
         (case check_mmv_dimensions X1 X2 v out of
            Inl e \<Rightarrow> (Inl e, st)
          | Inr (A, B, u, out') \<Rightarrow>
              (case check_device_properties [Some A, Some B, Some u, out'] ''mmv'' (Some opt) of
                 Inl e \<Rightarrow> (Inl e, st)
               | Inr _ \<Rightarrow>
                   (case decide_mmv_impl E A B u (options st1 new) st1 of
                      (Inl e, s) \<Rightarrow> (Inl e, s)
                    | (Inr impl, s) \<Rightarrow> call_mmv E impl A B u self out' new s)))
     \<and> dmmv E self X1 X2 v' w out (Some opt) st =
         (case check_dmmv_dimensions X1 X2 v' w out of
            Inl e \<Rightarrow> (Inl e, st)
          | Inr (A, B, u, z, out') \<Rightarrow>
              (case check_device_properties [Some A, Some B, u, z, out'] ''dmmv'' (Some opt) of
                 Inl e \<Rightarrow> (Inl e, st)
               | Inr _ \<Rightarrow>
                   (case decide_dmmv_impl E A B u z (options st1 new) st1 of
                      (Inl e, s) \<Rightarrow> (Inl e, s)
                    | (Inr impl, s) \<Rightarrow> call_dmmv E impl A B u z self out' new s)))"
proof -
  from assms(6) have new: "new = next_id st"
    and st1: "st1 = st\<lparr>options := (options st)(next_id st := options st opt),
                       next_id := Suc (next_id st)\<rparr>"
    by (auto simp: dataclasses_replace_new dataclasses_asdict_def)
  have frame: "options (snd (call E self X1 X2 out (Some opt) st)) a = options st a"
    "options (snd (mmv E self X1 X2 v out (Some opt) st)) a = options st a"
    "options (snd (dmmv E self X1 X2 v' w out (Some opt) st)) a = options st a"
    if "a < next_id st" for a
    using that assms(1-3) by (simp_all add: call_keeps_options mmv_keeps_options dmmv_keeps_options)
  have merged: "options st1 new =
      (options st (params self))\<lparr>use_cpu := use_cpu (options st opt),
                                  keops_active := keops_active (options st opt),
                                  other_options := other_options (options st opt)\<rparr>"
    by (simp add: new st1 replace_every_field)
  have dispatched: "options st1 new = options st opt"
    by (simp add: new st1)
  have fresh: "new = next_id st" "new \<noteq> params self" "new \<noteq> opt"
    using assms(4,5) by (simp_all add: new)
  have untouched: "options st1 (params self) = options st (params self)"
    "options st1 opt = options st opt"
    using assms(4,5) by (simp_all add: st1)
  have product: "call E self X1 X2 out (Some opt) st =
         (case check_mm_dimensions X1 X2 out of
            Inl e \<Rightarrow> (Inl e, st)
          | Inr (A, B, out') \<Rightarrow>
              (case check_device_properties [Some A, Some B, out'] ''kernel'' (Some opt) of
                 Inl e \<Rightarrow> (Inl e, st)
               | Inr _ \<Rightarrow>
                   (case decide_mm_impl E A B (options st1 new) st1 of
                      (Inl e, s) \<Rightarrow> (Inl e, s)
                    | (Inr impl, s) \<Rightarrow> call_mm E impl A B self out' new s)))"
    unfolding call_unfold dispatched unfolding new st1 ..
  have vector_product: "mmv E self X1 X2 v out (Some opt) st =
         (case check_mmv_dimensions X1 X2 v out of
            Inl e \<Rightarrow> (Inl e, st)
          | Inr (A, B, u, out') \<Rightarrow>
              (case check_device_properties [Some A, Some B, Some u, out'] ''mmv'' (Some opt) of
                 Inl e \<Rightarrow> (Inl e, st)
               | Inr _ \<Rightarrow>
                   (case decide_mmv_impl E A B u (options st1 new) st1 of
                      (Inl e, s) \<Rightarrow> (Inl e, s)
                    | (Inr impl, s) \<Rightarrow> call_mmv E impl A B u self out' new s)))"
    unfolding mmv_unfold dispatched unfolding new st1 ..
  have double_product: "dmmv E self X1 X2 v' w out (Some opt) st =
         (case check_dmmv_dimensions X1 X2 v' w out of
            Inl e \<Rightarrow> (Inl e, st)
          | Inr (A, B, u, z, out') \<Rightarrow>
              (case check_device_properties [Some A, Some B, u, z, out'] ''dmmv'' (Some opt) of
                 Inl e \<Rightarrow> (Inl e, st)
               | Inr _ \<Rightarrow>
                   (case decide_dmmv_impl E A B u z (options st1 new) st1 of
                      (Inl e, s) \<Rightarrow> (Inl e, s)
                    | (Inr impl, s) \<Rightarrow> call_dmmv E impl A B u z self out' new s)))"
    unfolding dmmv_unfold dispatched unfolding new st1 ..
  note kept = frame [OF assms(4)] frame [OF assms(5)]
  show ?thesis
    by (intro conjI) (fact kept fresh merged untouched product vector_product double_product)+
qed
theorem per_call_options_merge_witness:
  "params ex_kernel < next_id ex_state \<and> 1 < next_id ex_state
   \<and> dataclasses_replace (params ex_kernel) (dataclasses_asdict 1 ex_state) ex_state =
       (2, ex_state\<lparr>options := (options ex_state)(2 := ex_force), next_id := 3\<rparr>)
   \<and> options ex_state (params ex_kernel) = ex_cpu_only \<and> options ex_state 1 = ex_force
   \<and> options (snd (call ex_env ex_kernel ex_X1 ex_X2 None (Some 1) ex_state)) (params ex_kernel) =
       ex_cpu_only
   \<and> options (snd (call ex_env ex_kernel ex_X1 ex_X2 None (Some 1) ex_state)) 1 = ex_force
   \<and> options (snd (mmv ex_env ex_kernel ex_X1 ex_X2 ex_v None (Some 1) ex_state))
         (params ex_kernel) = ex_cpu_only
   \<and> options (snd (mmv ex_env ex_kernel ex_X1 ex_X2 ex_v None (Some 1) ex_state)) 1 = ex_force
   \<and> options (snd (dmmv ex_env ex_kernel ex_X1 ex_X2 (Some ex_v) (Some ex_w) None (Some 1)
         ex_state)) (params ex_kernel) = ex_cpu_only
   \<and> options (snd (dmmv ex_env ex_kernel ex_X1 ex_X2 (Some ex_v) (Some ex_w) None (Some 1)
         ex_state)) 1 = ex_force
   \<and> options (ex_state\<lparr>options := (options ex_state)(2 := ex_force), next_id := 3\<rparr>) 2 =
       ex_cpu_only\<lparr>use_cpu := False, keops_active := ''force'', other_options := ()\<rparr>"
proof -
  have backends:
    "\<And>impl A B k out' p s. options (snd (call_mm ex_env impl A B k out' p s)) = options s"
    "\<And>impl A B u k out' p s. options (snd (call_mmv ex_env impl A B u k out' p s)) = options s"
    "\<And>impl A B u z k out' p s.
        options (snd (call_dmmv ex_env impl A B u z k out' p s)) = options s"
    by (simp_all add: ex_env_def ex_backend_def Let_def)
  have allocated: "params ex_kernel < next_id ex_state" "1 < next_id ex_state"
    by (simp_all add: ex_kernel_def ex_state_def)
  have merged: "dataclasses_replace (params ex_kernel) (dataclasses_asdict 1 ex_state) ex_state =
      (2, ex_state\<lparr>options := (options ex_state)(2 := ex_force), next_id := 3\<rparr>)"
    by (simp add: dataclasses_replace_def dataclasses_asdict_def Let_def ex_kernel_def
          ex_state_def ex_force_def ex_cpu_only_def)
  from per_call_options_merge [OF backends allocated merged,
      of ex_X1 ex_X2 None ex_v "Some ex_v" "Some ex_w"]
  have kept:
    "options (snd (call ex_env ex_kernel ex_X1 ex_X2 None (Some 1) ex_state)) (params ex_kernel) =
       options ex_state (params ex_kernel)"
    "options (snd (call ex_env ex_kernel ex_X1 ex_X2 None (Some 1) ex_state)) 1 =
       options ex_state 1"
    "options (snd (mmv ex_env ex_kernel ex_X1 ex_X2 ex_v None (Some 1) ex_state))
       (params ex_kernel) = options ex_state (params ex_kernel)"
    "options (snd (mmv ex_env ex_kernel ex_X1 ex_X2 ex_v None (Some 1) ex_state)) 1 =
       options ex_state 1"
    "options (snd (dmmv ex_env ex_kernel ex_X1 ex_X2 (Some ex_v) (Some ex_w) None (Some 1)
       ex_state)) (params ex_kernel) = options ex_state (params ex_kernel)"
    "options (snd (dmmv ex_env ex_kernel ex_X1 ex_X2 (Some ex_v) (Some ex_w) None (Some 1)
       ex_state)) 1 = options ex_state 1"
    "options (ex_state\<lparr>options := (options ex_state)(2 := ex_force), next_id := 3\<rparr>) 2 =
       (options ex_state (params ex_kernel))\<lparr>use_cpu := use_cpu (options ex_state 1),
          keops_active := keops_active (options ex_state 1),
          other_options := other_options (options ex_state 1)\<rparr>"
    by blast+
  show ?thesis
    using allocated merged kept
    by (simp add: ex_state_def ex_kernel_def ex_force_def ex_cpu_only_def)
qed

end
